theory Spec2Isabelle
  imports Main "HOL-Library.AList" "HOL-Library.Countable"
begin

section \<open>Values of the host language\<close>

text \<open>
  The module \<^verbatim>\<open>src/index.js\<close> works on JavaScript values. The fragment embedded here has
  the primitives, plain (mutable) arrays and objects, and the two frozen collection classes
  \<^verbatim>\<open>CrioArray\<close> and \<^verbatim>\<open>CrioObject\<close>. Numbers are integers. An object is the list of its own
  properties in enumeration order: the names that are array indices first, in ascending
  order, then the other names in order of creation. A collection instance carries the identity it was
  allocated with (a counter value), its hidden \<^verbatim>\<open>$$hashCode\<close> and its slots; its hidden
  \<^verbatim>\<open>length\<close> is the number of slots. Two collection values are the same instance exactly
  when their identities agree; the allocation counter is threaded through every function
  that may run a constructor.
\<close>

datatype val =
    VUndefined
  | VNull
  | VBool bool
  | VNum int
  | VStr string
  | VArray "val list"
  | VObject "(string \<times> val) list"
  | VCrioArray nat int "val list"
  | VCrioObject nat int "(string \<times> val) list"

datatype error =
    Error string
  | TypeError
  | Unsupported

text \<open>
  \<^verbatim>\<open>Error\<close> carries the message of a \<^verbatim>\<open>throw new Error(...)\<close> of the module. \<^verbatim>\<open>TypeError\<close>
  is what the host raises on a property access on \<^verbatim>\<open>null\<close> or \<^verbatim>\<open>undefined\<close>, on a call of
  something that is not a function, and on a write to a frozen object or a primitive (the
  module is strict code). \<^verbatim>\<open>Unsupported\<close> marks host behaviour outside the embedded fragment:
  a write that would leave a plain array sparse or give it a named property, and a property
  key that is itself an array or an object or a number the host writes in exponent form.
\<close>

definition ArgumentError :: error where
  "ArgumentError = Error ''Must provide keys as an array, such as [\"foo\", \"bar\"].''"

definition RangeError :: error where
  "RangeError = Error ''Cannot set a key for sparsed array on crio objects.''"

definition CRIO_ARRAY_TYPE :: string where
  "CRIO_ARRAY_TYPE = ''CrioArray''"

definition CRIO_OBJECT_TYPE :: string where
  "CRIO_OBJECT_TYPE = ''CrioObject''"

definition NATIVE_KEYS :: "string list" where
  "NATIVE_KEYS = [''$$hashCode'', ''$$type'', ''length'']"

subsection \<open>Helpers of \<^verbatim>\<open>./utils\<close>\<close>

text \<open>
  Modelled from the spec: the predicates \<^verbatim>\<open>isCrio\<close>, \<^verbatim>\<open>isArray\<close>, \<^verbatim>\<open>isObject\<close> and
  \<^verbatim>\<open>isUndefined\<close> are imported from \<^verbatim>\<open>./utils\<close>, which is not among the sources. The spec
  has them as the generic shape predicates; \<^verbatim>\<open>isArray\<close> also accepts an indexed collection
  (the kind tag is used by the "is this array-like" predicate, and the deep-path engine picks
  the root's constructor with it).
\<close>

fun isCrio :: "val \<Rightarrow> bool" where
  "isCrio (VCrioArray i h xs) = True"
| "isCrio (VCrioObject i h kvs) = True"
| "isCrio v = False"

fun isArray :: "val \<Rightarrow> bool" where
  "isArray (VArray xs) = True"
| "isArray (VCrioArray i h xs) = True"
| "isArray v = False"

fun isObject :: "val \<Rightarrow> bool" where
  "isObject (VObject kvs) = True"
| "isObject (VCrioObject i h kvs) = True"
| "isObject v = False"

fun isUndefined :: "val \<Rightarrow> bool" where
  "isUndefined VUndefined = True"
| "isUndefined v = False"

text \<open>The hidden fields of an instance; a value that is no collection has none.\<close>

fun hashCodeOf :: "val \<Rightarrow> int option" where
  "hashCodeOf (VCrioArray i h xs) = Some h"
| "hashCodeOf (VCrioObject i h kvs) = Some h"
| "hashCodeOf v = None"

fun identityOf :: "val \<Rightarrow> nat option" where
  "identityOf (VCrioArray i h xs) = Some i"
| "identityOf (VCrioObject i h kvs) = Some i"
| "identityOf v = None"

text \<open>The indexed elements \<^verbatim>\<open>0 .. length - 1\<close> of an array or an indexed collection.\<close>

fun arrayItems :: "val \<Rightarrow> val list" where
  "arrayItems (VArray xs) = xs"
| "arrayItems (VCrioArray i h xs) = xs"
| "arrayItems v = []"

text \<open>
  Modelled from the spec: \<^verbatim>\<open>shallowCloneArray\<close> of \<^verbatim>\<open>./utils\<close> clones the underlying
  sequence into a fresh plain array holding the same slot values.
\<close>

definition shallowCloneArray :: "val \<Rightarrow> val" where
  "shallowCloneArray this = VArray (arrayItems this)"

text \<open>
  Modelled from the spec: \<^verbatim>\<open>hash\<close> of \<^verbatim>\<open>./utils\<close> is an opaque function from values to
  hash codes; it is the parameter \<open>H\<close> of every definition below. \<^verbatim>\<open>hasChanged\<close> computes
  the hash of the candidate and compares it with the hidden hash code of the original; a
  plain value has no hash code, so it always counts as changed.
\<close>

definition hasChanged :: "(val \<Rightarrow> int) \<Rightarrow> val \<Rightarrow> val \<Rightarrow> bool" where
  "hasChanged H crio newObject = (hashCodeOf crio \<noteq> Some (H newObject))"

subsection \<open>Property names\<close>

definition digit :: "nat \<Rightarrow> char" where
  "digit n = ''0123456789'' ! n"

fun show_nat :: "nat \<Rightarrow> string" where
  "show_nat n = (if n < 10 then [digit n] else show_nat (n div 10) @ [digit (n mod 10)])"

declare show_nat.simps [simp del]

definition show_int :: "int \<Rightarrow> string" where
  "show_int n = (if n < 0 then CHR ''-'' # show_nat (nat (- n)) else show_nat (nat n))"

text \<open>
  The property key a value is coerced to when it is used as \<^verbatim>\<open>object[key]\<close>. The host
  writes a number in decimal digits below \<open>10^21\<close>. A larger number, and a key that is an
  array or an object, are outside the fragment.
\<close>

fun propertyKey :: "val \<Rightarrow> string option" where
  "propertyKey (VStr s) = Some s"
| "propertyKey (VNum n) =
     (if \<bar>n\<bar> < 1000000000000000000000 then Some (show_int n) else None)"
| "propertyKey (VBool b) = Some (if b then ''true'' else ''false'')"
| "propertyKey VUndefined = Some ''undefined''"
| "propertyKey VNull = Some ''null''"
| "propertyKey v = None"

text \<open>The array index below \<open>n\<close> that a property name denotes, if any.\<close>

definition indexOfName :: "string \<Rightarrow> nat \<Rightarrow> nat option" where
  "indexOfName name n = find (\<lambda>i. show_nat i = name) [0..<n]"

definition indexedEntries :: "val list \<Rightarrow> (string \<times> val) list" where
  "indexedEntries xs = zip (map show_nat [0..<length xs]) xs"

text \<open>
  Creating or overwriting a property of a plain object. An existing property keeps its
  place. A new one whose name is an array index (the canonical decimal form of a number
  below \<open>2^32 - 1\<close>) goes among the index names in ascending order; any other new name goes
  to the end.
\<close>

definition digitsValue :: "string \<Rightarrow> nat" where
  "digitsValue name = foldl (\<lambda>n c. 10 * n + (of_char c - 48)) 0 name"

definition arrayIndex :: "string \<Rightarrow> nat option" where
  "arrayIndex name =
     (let n = digitsValue name
      in if name \<noteq> [] \<and> show_nat n = name \<and> n < 4294967295 then Some n else None)"

fun insertIndexed :: "nat \<Rightarrow> string \<Rightarrow> val \<Rightarrow> (string \<times> val) list \<Rightarrow> (string \<times> val) list" where
  "insertIndexed n name v [] = [(name, v)]"
| "insertIndexed n name v ((k, u) # kvs) =
     (case arrayIndex k of
        Some m \<Rightarrow> if m < n then (k, u) # insertIndexed n name v kvs
                  else (name, v) # (k, u) # kvs
      | None \<Rightarrow> (name, v) # (k, u) # kvs)"

definition putEntry :: "string \<Rightarrow> val \<Rightarrow> (string \<times> val) list \<Rightarrow> (string \<times> val) list" where
  "putEntry name v kvs =
     (if map_of kvs name \<noteq> None then AList.update name v kvs
      else case arrayIndex name of
             Some n \<Rightarrow> insertIndexed n name v kvs
           | None \<Rightarrow> kvs @ [(name, v)])"

text \<open>
  The own enumerable properties of a value, as \<^verbatim>\<open>{...this}\<close>, \<^verbatim>\<open>Object.keys\<close> and
  \<^verbatim>\<open>Object.assign\<close> see them. The hidden fields of a collection are not enumerable.
\<close>

fun ownEntries :: "val \<Rightarrow> (string \<times> val) list" where
  "ownEntries (VObject kvs) = kvs"
| "ownEntries (VCrioObject i h kvs) = kvs"
| "ownEntries (VArray xs) = indexedEntries xs"
| "ownEntries (VCrioArray i h xs) = indexedEntries xs"
| "ownEntries (VStr s) = indexedEntries (map (\<lambda>c. VStr [c]) s)"
| "ownEntries v = []"

definition lookup :: "(string \<times> val) list \<Rightarrow> string \<Rightarrow> val" where
  "lookup kvs name = (case map_of kvs name of Some v \<Rightarrow> v | None \<Rightarrow> VUndefined)"

definition itemAt :: "val list \<Rightarrow> string \<Rightarrow> val" where
  "itemAt xs name =
     (case indexOfName name (length xs) of
        Some i \<Rightarrow> xs ! i
      | None \<Rightarrow> if name = ''length'' then VNum (int (length xs)) else VUndefined)"

text \<open>
  Reading the own property \<open>name\<close> of a value that is neither \<^verbatim>\<open>null\<close> nor
  \<^verbatim>\<open>undefined\<close>. Members inherited from a prototype (the methods) are not values of the
  fragment; a name that is no own property reads as \<^verbatim>\<open>undefined\<close>.
\<close>

fun ownProperty :: "val \<Rightarrow> string \<Rightarrow> val" where
  "ownProperty (VArray xs) name = itemAt xs name"
| "ownProperty (VCrioArray i h xs) name =
     (case indexOfName name (length xs) of
        Some j \<Rightarrow> xs ! j
      | None \<Rightarrow>
          if name = ''$$hashCode'' then VNum h
          else if name = ''$$type'' then VStr CRIO_ARRAY_TYPE
          else if name = ''length'' then VNum (int (length xs))
          else VUndefined)"
| "ownProperty (VObject kvs) name = lookup kvs name"
| "ownProperty (VCrioObject i h kvs) name =
     (case map_of kvs name of
        Some v \<Rightarrow> v
      | None \<Rightarrow>
          if name = ''$$hashCode'' then VNum h
          else if name = ''$$type'' then VStr CRIO_OBJECT_TYPE
          else if name = ''length'' then VNum (int (length kvs))
          else VUndefined)"
| "ownProperty (VStr s) name = itemAt (map (\<lambda>c. VStr [c]) s) name"
| "ownProperty v name = VUndefined"

text \<open>The expression \<^verbatim>\<open>object[key]\<close>.\<close>

definition getProperty :: "val \<Rightarrow> val \<Rightarrow> error + val" where
  "getProperty object key =
     (if object = VUndefined \<or> object = VNull then Inl TypeError
      else case propertyKey key of
             None \<Rightarrow> Inl Unsupported
           | Some name \<Rightarrow> Inr (ownProperty object name))"

text \<open>
  The statement \<^verbatim>\<open>object[key] = value\<close>, returning the object after the write. On a plain
  array it replaces an element or appends at index \<^verbatim>\<open>length\<close>; on a plain object it
  overwrites or creates the property. A collection is frozen.
\<close>

fun setOwnProperty :: "val \<Rightarrow> string \<Rightarrow> val \<Rightarrow> error + val" where
  "setOwnProperty (VArray xs) name value =
     (case indexOfName name (Suc (length xs)) of
        Some i \<Rightarrow> Inr (VArray (if i < length xs then xs[i := value] else xs @ [value]))
      | None \<Rightarrow> Inl Unsupported)"
| "setOwnProperty (VObject kvs) name value = Inr (VObject (putEntry name value kvs))"
| "setOwnProperty v name value = Inl TypeError"

definition setProperty :: "val \<Rightarrow> val \<Rightarrow> val \<Rightarrow> error + val" where
  "setProperty object key value =
     (case propertyKey key of
        None \<Rightarrow> Inl Unsupported
      | Some name \<Rightarrow> setOwnProperty object name value)"

section \<open>Normalization and the two constructors\<close>

text \<open>
  \<^verbatim>\<open>getRealValue\<close> (lines 46-60) and the constructors (lines 116-133 and 681-704) call
  each other. A new instance takes the current value of the allocation counter as its
  identity; its slots are normalised left to right, and its hash code is the hash of the raw
  argument. \<^verbatim>\<open>forEach_items\<close> is the loop of the array constructor and \<^verbatim>\<open>forEach_keys\<close>
  the loop of the object constructor, which skips the names in \<^verbatim>\<open>NATIVE_KEYS\<close>.

  The own property names of a plain array are its indices and \<^verbatim>\<open>length\<close>, so a
  \<^verbatim>\<open>CrioObject\<close> built from one has a slot per index. The module itself applies a
  constructor only to collections, arrays and objects. A string argument has a length and
  a character at every index, so either constructor makes a slot of each character. For a
  number or a boolean there is nothing to iterate and no own property name, and the same is
  taken for a plain object given to the array constructor. With \<^verbatim>\<open>null\<close> or \<^verbatim>\<open>undefined\<close>
  the host throws on the first property access; these two arguments are not part of the
  fragment.
\<close>

fun getRealValue :: "(val \<Rightarrow> int) \<Rightarrow> val \<Rightarrow> nat \<Rightarrow> val \<times> nat"
  and CrioArray_constructor :: "(val \<Rightarrow> int) \<Rightarrow> val \<Rightarrow> nat \<Rightarrow> val \<times> nat"
  and CrioObject_constructor :: "(val \<Rightarrow> int) \<Rightarrow> val \<Rightarrow> nat \<Rightarrow> val \<times> nat"
  and forEach_items :: "(val \<Rightarrow> int) \<Rightarrow> val list \<Rightarrow> nat \<Rightarrow> val list \<times> nat"
  and forEach_keys ::
    "(val \<Rightarrow> int) \<Rightarrow> (string \<times> val) list \<Rightarrow> nat \<Rightarrow> (string \<times> val) list \<times> nat"
where
  "getRealValue H (VCrioArray i h xs) s = (VCrioArray i h xs, s)"
| "getRealValue H (VCrioObject i h kvs) s = (VCrioObject i h kvs, s)"
| "getRealValue H (VArray xs) s = CrioArray_constructor H (VArray xs) s"
| "getRealValue H (VObject kvs) s = CrioObject_constructor H (VObject kvs) s"
| "getRealValue H v s = (v, s)"
| "CrioArray_constructor H (VCrioArray i h xs) s = (VCrioArray i h xs, s)"
| "CrioArray_constructor H (VCrioObject i h kvs) s = (VCrioObject i h kvs, s)"
| "CrioArray_constructor H (VArray xs) s =
     (let (items, s') = forEach_items H xs (Suc s)
      in (VCrioArray s (H (VArray xs)) items, s'))"
| "CrioArray_constructor H (VStr str) s =
     (VCrioArray s (H (VStr str)) (map (\<lambda>c. VStr [c]) str), Suc s)"
| "CrioArray_constructor H v s = (VCrioArray s (H v) [], Suc s)"
| "CrioObject_constructor H (VCrioArray i h xs) s = (VCrioArray i h xs, s)"
| "CrioObject_constructor H (VCrioObject i h kvs) s = (VCrioObject i h kvs, s)"
| "CrioObject_constructor H (VObject kvs) s =
     (let (slots, s') = forEach_keys H kvs (Suc s)
      in (VCrioObject s (H (VObject kvs)) slots, s'))"
| "CrioObject_constructor H (VArray xs) s =
     (let (items, s') = forEach_items H xs (Suc s)
      in (VCrioObject s (H (VArray xs)) (indexedEntries items), s'))"
| "CrioObject_constructor H (VStr str) s =
     (VCrioObject s (H (VStr str)) (indexedEntries (map (\<lambda>c. VStr [c]) str)), Suc s)"
| "CrioObject_constructor H v s = (VCrioObject s (H v) [], Suc s)"
| "forEach_items H [] s = ([], s)"
| "forEach_items H (x # xs) s =
     (let (y, s1) = getRealValue H x s;
          (ys, s2) = forEach_items H xs s1
      in (y # ys, s2))"
| "forEach_keys H [] s = ([], s)"
| "forEach_keys H ((k, v) # kvs) s =
     (if k \<in> set NATIVE_KEYS then forEach_keys H kvs s
      else (let (y, s1) = getRealValue H v s;
                (ys, s2) = forEach_keys H kvs s1
            in ((k, y) # ys, s2)))"

section \<open>The change-detection gate\<close>

text \<open>\<^verbatim>\<open>returnCorrectObject\<close> (lines 70-76).\<close>

definition returnCorrectObject ::
  "(val \<Rightarrow> int) \<Rightarrow> val \<Rightarrow> val \<Rightarrow> (val \<Rightarrow> nat \<Rightarrow> val \<times> nat) \<Rightarrow> nat \<Rightarrow> val \<times> nat" where
  "returnCorrectObject H crio newObject Constructor s =
     (if hasChanged H crio newObject then Constructor newObject s else (crio, s))"

section \<open>Methods of \<^verbatim>\<open>CrioArray\<close>\<close>

text \<open>
  \<^verbatim>\<open>get\<close> (lines 294-296) and \<^verbatim>\<open>set\<close> (lines 511-523) take a non-negative integer index.
  The plain assignment \<^verbatim>\<open>clone[index] = value\<close> replaces an element below the length and
  appends at the length; \<^verbatim>\<open>set\<close> throws before it for a larger index.
\<close>

definition CrioArray_get :: "val \<Rightarrow> nat \<Rightarrow> val" where
  "CrioArray_get this index =
     (if index < length (arrayItems this) then arrayItems this ! index else VUndefined)"

definition assignIndex :: "val list \<Rightarrow> nat \<Rightarrow> val \<Rightarrow> val list" where
  "assignIndex xs index value = (if index < length xs then xs[index := value] else xs @ [value])"

definition CrioArray_set ::
  "(val \<Rightarrow> int) \<Rightarrow> val \<Rightarrow> nat \<Rightarrow> val \<Rightarrow> nat \<Rightarrow> (error + val) \<times> nat" where
  "CrioArray_set H this key value s =
     (if key > length (arrayItems this) then (Inl RangeError, s)
      else
        (let clone = shallowCloneArray this;
             clone' = VArray (assignIndex (arrayItems clone) key value);
             (r, s') = returnCorrectObject H this clone' (CrioArray_constructor H) s
         in (Inr r, s')))"

text \<open>
  \<^verbatim>\<open>concat\<close> (lines 150-160): the native \<^verbatim>\<open>concat\<close> spreads an argument that is a plain
  array and appends any other argument as one element.
\<close>

fun concatSpread :: "val \<Rightarrow> val list" where
  "concatSpread (VArray ys) = ys"
| "concatSpread v = [v]"

definition CrioArray_concat :: "(val \<Rightarrow> int) \<Rightarrow> val \<Rightarrow> val list \<Rightarrow> nat \<Rightarrow> val \<times> nat" where
  "CrioArray_concat H this arrays s =
     (if arrays = [] then (this, s)
      else
        (let clone = shallowCloneArray this;
             concattedArray = VArray (arrayItems clone @ concat (map concatSpread arrays))
         in CrioArray_constructor H concattedArray s))"

text \<open>
  \<^verbatim>\<open>slice\<close> (lines 555-561): the native \<^verbatim>\<open>slice\<close> takes the start from the first argument
  and the end from the second (the length when there is none); a negative bound counts from
  the end, and both are clamped to \<^verbatim>\<open>0 .. length\<close>.
\<close>

definition relativeIndex :: "int \<Rightarrow> nat \<Rightarrow> nat" where
  "relativeIndex i len = (if i < 0 then nat (max (int len + i) 0) else min (nat i) len)"

definition nativeSlice :: "val list \<Rightarrow> int list \<Rightarrow> val list" where
  "nativeSlice xs args =
     (let len = length xs;
          k = (case args of [] \<Rightarrow> 0 | a # _ \<Rightarrow> relativeIndex a len);
          final = (case args of a # b # _ \<Rightarrow> relativeIndex b len | _ \<Rightarrow> len)
      in take (final - k) (drop k xs))"

definition CrioArray_slice :: "(val \<Rightarrow> int) \<Rightarrow> val \<Rightarrow> int list \<Rightarrow> nat \<Rightarrow> val \<times> nat" where
  "CrioArray_slice H this args s =
     (if args = [] then (this, s)
      else CrioArray_constructor H (VArray (nativeSlice (arrayItems this) args)) s)"

text \<open>\<^verbatim>\<open>unshift\<close> (lines 636-645).\<close>

definition CrioArray_unshift :: "(val \<Rightarrow> int) \<Rightarrow> val \<Rightarrow> val list \<Rightarrow> nat \<Rightarrow> val \<times> nat" where
  "CrioArray_unshift H this items s =
     (if items = [] then (this, s)
      else CrioArray_constructor H (VArray (items @ arrayItems this)) s)"

text \<open>
  \<^verbatim>\<open>thaw\<close> (lines 606-610 and 910-925), in the form in which both methods apply it to
  a slot, \<^verbatim>\<open>isCrio(item) ? item.thaw() : item\<close>. The own property names of a keyed
  collection are its slots and its hidden fields; the hidden fields are what the test on
  \<^verbatim>\<open>NATIVE_KEYS\<close> leaves out.
\<close>

fun thaw :: "val \<Rightarrow> val" where
  "thaw (VCrioArray i h xs) = VArray (map thaw xs)"
| "thaw (VCrioObject i h kvs) = VObject (map (\<lambda>(k, v). (k, thaw v)) kvs)"
| "thaw v = v"

text \<open>
  \<^verbatim>\<open>merge\<close> of \<^verbatim>\<open>CrioArray\<close> (lines 396-406). The callback of \<^verbatim>\<open>clone.map\<close> is
  \<^verbatim>\<open>object[keyIndex] || clone[keyIndex]\<close>; a \<^verbatim>\<open>clone\<close> that is not a plain array has no
  \<^verbatim>\<open>map\<close> to call. The method is also applied to a plain \<^verbatim>\<open>this\<close> by the deep-path engine.
\<close>

fun truthy :: "val \<Rightarrow> bool" where
  "truthy VUndefined = False"
| "truthy VNull = False"
| "truthy (VBool b) = b"
| "truthy (VNum n) = (n \<noteq> 0)"
| "truthy (VStr s) = (s \<noteq> [])"
| "truthy v = True"

definition mergeItem :: "val \<Rightarrow> nat \<Rightarrow> val \<Rightarrow> error + val" where
  "mergeItem object keyIndex item =
     (case getProperty object (VNum (int keyIndex)) of
        Inl e \<Rightarrow> Inl e
      | Inr v \<Rightarrow> Inr (if truthy v then v else item))"

fun nativeMap :: "(nat \<Rightarrow> val \<Rightarrow> error + val) \<Rightarrow> nat \<Rightarrow> val list \<Rightarrow> error + val list" where
  "nativeMap f i [] = Inr []"
| "nativeMap f i (x # xs) =
     (case f i x of
        Inl e \<Rightarrow> Inl e
      | Inr y \<Rightarrow> (case nativeMap f (Suc i) xs of Inl e \<Rightarrow> Inl e | Inr ys \<Rightarrow> Inr (y # ys)))"

fun forEach_merge :: "val \<Rightarrow> val list \<Rightarrow> error + val" where
  "forEach_merge clone [] = Inr clone"
| "forEach_merge clone (object # objects) =
     (case clone of
        VArray xs \<Rightarrow>
          (case nativeMap (mergeItem object) 0 xs of
             Inl e \<Rightarrow> Inl e
           | Inr ys \<Rightarrow> forEach_merge (VArray ys) objects)
      | _ \<Rightarrow> Inl TypeError)"

definition CrioArray_merge ::
  "(val \<Rightarrow> int) \<Rightarrow> val \<Rightarrow> val list \<Rightarrow> nat \<Rightarrow> (error + val) \<times> nat" where
  "CrioArray_merge H this objects s =
     (let clone = (if \<not> isCrio this then this else shallowCloneArray this)
      in case forEach_merge clone objects of
           Inl e \<Rightarrow> (Inl e, s)
         | Inr clone' \<Rightarrow>
             (let (r, s') = returnCorrectObject H this clone' (CrioArray_constructor H) s
              in (Inr r, s')))"

section \<open>Methods of \<^verbatim>\<open>CrioObject\<close>\<close>

text \<open>
  \<^verbatim>\<open>get\<close> (lines 744-746) and \<^verbatim>\<open>set\<close> (lines 880-888) take a string key. The clone
  \<^verbatim>\<open>{...this}\<close> is a plain object with the slots of \<^verbatim>\<open>this\<close>.
\<close>

definition CrioObject_get :: "val \<Rightarrow> string \<Rightarrow> val" where
  "CrioObject_get this key = ownProperty this key"

definition CrioObject_set :: "(val \<Rightarrow> int) \<Rightarrow> val \<Rightarrow> string \<Rightarrow> val \<Rightarrow> nat \<Rightarrow> val \<times> nat" where
  "CrioObject_set H this key value s =
     (let clone = VObject (putEntry key value (ownEntries this))
      in returnCorrectObject H this clone (CrioObject_constructor H) s)"

text \<open>
  \<^verbatim>\<open>merge\<close> of \<^verbatim>\<open>CrioObject\<close> (lines 812-822). \<^verbatim>\<open>Object.assign\<close> writes the own enumerable
  properties of each object onto the clone, in order. The fragment has it for a clone that
  is a plain array or a plain object. When \<^verbatim>\<open>this\<close> is plain the writes also reach
  \<^verbatim>\<open>this\<close>, which has no hash code either way.
\<close>

fun assignEntries :: "val \<Rightarrow> (string \<times> val) list \<Rightarrow> error + val" where
  "assignEntries clone [] = Inr clone"
| "assignEntries clone ((k, v) # kvs) =
     (case setOwnProperty clone k v of
        Inl e \<Rightarrow> Inl e
      | Inr clone' \<Rightarrow> assignEntries clone' kvs)"

fun objectAssign :: "val \<Rightarrow> val \<Rightarrow> error + val" where
  "objectAssign (VArray xs) object = assignEntries (VArray xs) (ownEntries object)"
| "objectAssign (VObject kvs) object = assignEntries (VObject kvs) (ownEntries object)"
| "objectAssign VUndefined object = Inl TypeError"
| "objectAssign VNull object = Inl TypeError"
| "objectAssign clone object = Inl Unsupported"

fun forEach_assign :: "val \<Rightarrow> val list \<Rightarrow> error + val" where
  "forEach_assign clone [] = Inr clone"
| "forEach_assign clone (object # objects) =
     (case objectAssign clone object of
        Inl e \<Rightarrow> Inl e
      | Inr clone' \<Rightarrow> forEach_assign clone' objects)"

definition CrioObject_merge ::
  "(val \<Rightarrow> int) \<Rightarrow> val \<Rightarrow> val list \<Rightarrow> nat \<Rightarrow> (error + val) \<times> nat" where
  "CrioObject_merge H this objects s =
     (let clone = (if \<not> isCrio this then this else VObject (ownEntries this))
      in case forEach_assign clone objects of
           Inl e \<Rightarrow> (Inl e, s)
         | Inr clone' \<Rightarrow>
             (let (r, s') = returnCorrectObject H this clone' (CrioObject_constructor H) s
              in (Inr r, s')))"

section \<open>Deep paths\<close>

text \<open>
  \<^verbatim>\<open>getIn\<close> has the same body in both classes (lines 304-325 and 754-775). A path with no
  key leaves the loop at once and the method returns \<^verbatim>\<open>undefined\<close>.
\<close>

fun getIn_loop :: "val \<Rightarrow> val list \<Rightarrow> error + val" where
  "getIn_loop currentObject [] = Inr VUndefined"
| "getIn_loop currentObject (key # rest) =
     (case getProperty currentObject key of
        Inl e \<Rightarrow> Inl e
      | Inr v \<Rightarrow> if isUndefined v \<or> rest = [] then Inr v else getIn_loop v rest)"

definition getIn :: "val \<Rightarrow> val \<Rightarrow> error + val" where
  "getIn this keys =
     (if \<not> isArray keys then Inl ArgumentError else getIn_loop this (arrayItems keys))"

text \<open>
  \<^verbatim>\<open>assignOnDeepMatch\<close> (lines 87-113). The loop walks the thawed copy along the keys and
  writes in place; \<^verbatim>\<open>forEach_deep\<close> returns the object it was started on after the writes
  below it, so the write through the alias \<^verbatim>\<open>currentObject\<close> appears as the write of the
  updated child into its parent. At the last key the merge method is chosen by the shape of
  \<^verbatim>\<open>currentObject\<close>, the container that holds the addressed slot.
\<close>

fun forEach_deep ::
  "(val \<Rightarrow> int) \<Rightarrow> val \<Rightarrow> val list \<Rightarrow> val \<Rightarrow> bool \<Rightarrow> nat \<Rightarrow> (error + val) \<times> nat" where
  "forEach_deep H currentObject [] value isMerge s = (Inr currentObject, s)"
| "forEach_deep H currentObject (key # rest) value isMerge s =
     (case getProperty currentObject key of
        Inl e \<Rightarrow> (Inl e, s)
      | Inr currentValue \<Rightarrow>
          (case (if \<not> isArray currentValue \<and> \<not> isObject currentValue
                 then setProperty currentObject key (VObject [])
                 else Inr currentObject) of
             Inl e \<Rightarrow> (Inl e, s)
           | Inr current \<Rightarrow>
               (case getProperty current key of
                  Inl e \<Rightarrow> (Inl e, s)
                | Inr target \<Rightarrow>
                    if rest = [] then
                      (if isMerge then
                         (case (if isArray current
                                then CrioArray_merge H target (arrayItems value) s
                                else CrioObject_merge H target (arrayItems value) s) of
                            (Inl e, s') \<Rightarrow> (Inl e, s')
                          | (Inr merged, s') \<Rightarrow> (setProperty current key merged, s'))
                       else (setProperty current key value, s))
                    else
                      (case forEach_deep H target rest value isMerge s of
                         (Inl e, s') \<Rightarrow> (Inl e, s')
                       | (Inr child, s') \<Rightarrow> (setProperty current key child, s')))))"

definition assignOnDeepMatch ::
  "(val \<Rightarrow> int) \<Rightarrow> val \<Rightarrow> val \<Rightarrow> val \<Rightarrow> bool \<Rightarrow> nat \<Rightarrow> (error + val) \<times> nat" where
  "assignOnDeepMatch H object keys value isMerge s =
     (let FinalCrio = (if isArray object then CrioArray_constructor H
                       else CrioObject_constructor H)
      in case forEach_deep H (thaw object) (arrayItems keys) value isMerge s of
           (Inl e, s') \<Rightarrow> (Inl e, s')
         | (Inr referenceToCurrentObject, s') \<Rightarrow>
             (let (r, s'') = returnCorrectObject H object referenceToCurrentObject FinalCrio s'
              in (Inr r, s'')))"

text \<open>
  \<^verbatim>\<open>setIn\<close> (lines 532-538 and 897-903) and \<^verbatim>\<open>mergeIn\<close> (lines 415-425 and 832-842)
  have the same body in both classes.
\<close>

definition setIn :: "(val \<Rightarrow> int) \<Rightarrow> val \<Rightarrow> val \<Rightarrow> val \<Rightarrow> nat \<Rightarrow> (error + val) \<times> nat" where
  "setIn H this keys value s =
     (if \<not> isArray keys then (Inl ArgumentError, s)
      else assignOnDeepMatch H this keys value False s)"

definition mergeIn ::
  "(val \<Rightarrow> int) \<Rightarrow> val \<Rightarrow> val \<Rightarrow> val list \<Rightarrow> nat \<Rightarrow> (error + val) \<times> nat" where
  "mergeIn H this keys objects s =
     (if \<not> isArray keys then (Inl ArgumentError, s)
      else if objects = [] then (Inr this, s)
      else assignOnDeepMatch H this keys (VArray objects) True s)"

section \<open>The iteration protocol of \<^verbatim>\<open>CrioObject\<close>\<close>

text \<open>
  The iterator of \<^verbatim>\<open>CrioObject\<close> (lines 968-987). The closure holds the key list computed
  when the iterator is made and the running index; \<^verbatim>\<open>next\<close> reads \<^verbatim>\<open>this[keys[index]]\<close>,
  which is \<^verbatim>\<open>this[undefined]\<close> once the index is past the keys.
\<close>

record iterator =
  keys :: "string list"
  index :: nat

record iterResult =
  "value" :: val
  "done" :: bool

definition crioLength :: "val \<Rightarrow> nat" where
  "crioLength this = length (ownEntries this)"

definition CrioObject_iterator :: "val \<Rightarrow> iterator" where
  "CrioObject_iterator this = \<lparr>keys = map fst (ownEntries this), index = 0\<rparr>"

definition CrioObject_next :: "val \<Rightarrow> iterator \<Rightarrow> iterResult \<times> iterator" where
  "CrioObject_next this it =
     (let key = (if index it < length (keys it) then keys it ! index it else ''undefined'')
      in (\<lparr>value = ownProperty this key, done = (index it \<ge> crioLength this)\<rparr>,
          it\<lparr>index := index it + 1\<rparr>))"

text \<open>The values a consumer of the iteration protocol receives: it stops at \<^verbatim>\<open>done\<close>.\<close>

function iterate :: "val \<Rightarrow> iterator \<Rightarrow> val list" where
  "iterate this it =
     (let (r, it') = CrioObject_next this it
      in if done r then [] else value r # iterate this it')"
  by pat_completeness auto
termination
  by (relation "measure (\<lambda>(this, it). crioLength this - index it)")
     (auto simp: CrioObject_next_def)

declare iterate.simps [simp del]

section \<open>The factory\<close>

text \<open>The factory \<^verbatim>\<open>crio\<close> (lines 996-1006).\<close>

definition crio :: "(val \<Rightarrow> int) \<Rightarrow> val \<Rightarrow> nat \<Rightarrow> val \<times> nat" where
  "crio H object s =
     (if isArray object then CrioArray_constructor H object s
      else if isObject object then CrioObject_constructor H object s
      else (object, s))"

section \<open>Hash functions and content\<close>

text \<open>
  The \<open>content\<close> of a value is the plain value it stands for at every depth: it forgets
  which arrays and objects in it are collection instances, together with their identities
  and hidden fields. Results about what is read back from a collection are stated with it.
\<close>

fun "content" :: "val \<Rightarrow> val" where
  "content (VArray xs) = VArray (map content xs)"
| "content (VObject kvs) = VObject (map (\<lambda>(k, v). (k, content v)) kvs)"
| "content (VCrioArray i h xs) = VArray (map content xs)"
| "content (VCrioObject i h kvs) = VObject (map (\<lambda>(k, v). (k, content v)) kvs)"
| "content v = v"


text \<open>
  Two concrete hash functions, used where a result needs one; both are codes under the
  pairing functions on the natural numbers and neither looks at identities or hidden
  fields. \<open>structuralHash\<close> is the code of the content, so it does not tell a collection
  instance from the plain array or object of the same content. \<open>instanceHash\<close> does: it
  gives an instance the code of its class and slots.
\<close>

fun encodeVal :: "val \<Rightarrow> nat" where
  "encodeVal VUndefined = prod_encode (0, 0)"
| "encodeVal VNull = prod_encode (1, 0)"
| "encodeVal (VBool b) = prod_encode (2, if b then 1 else 0)"
| "encodeVal (VNum n) = prod_encode (3, int_encode n)"
| "encodeVal (VStr s) = prod_encode (4, list_encode (map of_char s))"
| "encodeVal (VArray xs) = prod_encode (5, list_encode (map encodeVal xs))"
| "encodeVal (VObject kvs) =
     prod_encode (6, list_encode
       (map (\<lambda>(k, v). prod_encode (list_encode (map of_char k), encodeVal v)) kvs))"
| "encodeVal (VCrioArray i h xs) = prod_encode (5, list_encode (map encodeVal xs))"
| "encodeVal (VCrioObject i h kvs) =
     prod_encode (6, list_encode
       (map (\<lambda>(k, v). prod_encode (list_encode (map of_char k), encodeVal v)) kvs))"

definition structuralHash :: "val \<Rightarrow> int" where
  "structuralHash v = int (encodeVal v)"

fun encodeInstance :: "val \<Rightarrow> nat" where
  "encodeInstance VUndefined = prod_encode (0, 0)"
| "encodeInstance VNull = prod_encode (1, 0)"
| "encodeInstance (VBool b) = prod_encode (2, if b then 1 else 0)"
| "encodeInstance (VNum n) = prod_encode (3, int_encode n)"
| "encodeInstance (VStr s) = prod_encode (4, list_encode (map of_char s))"
| "encodeInstance (VArray xs) = prod_encode (5, list_encode (map encodeInstance xs))"
| "encodeInstance (VObject kvs) =
     prod_encode (6, list_encode
       (map (\<lambda>(k, v). prod_encode (list_encode (map of_char k), encodeInstance v)) kvs))"
| "encodeInstance (VCrioArray i h xs) = prod_encode (7, list_encode (map encodeInstance xs))"
| "encodeInstance (VCrioObject i h kvs) =
     prod_encode (8, list_encode
       (map (\<lambda>(k, v). prod_encode (list_encode (map of_char k), encodeInstance v)) kvs))"

definition instanceHash :: "val \<Rightarrow> int" where
  "instanceHash v = int (encodeInstance v)"


text \<open>
  A value that normalization returns as it is: a primitive or a collection instance. A raw
  array or object is \<open>shallow\<close> when all its elements are such values and, for an object,
  no property is named like a hidden field; the slots of the collection built from it are
  then exactly its elements.
\<close>

fun settled :: "val \<Rightarrow> bool" where
  "settled (VArray xs) = False"
| "settled (VObject kvs) = False"
| "settled v = True"

fun shallow :: "val \<Rightarrow> bool" where
  "shallow (VArray xs) = list_all settled xs"
| "shallow (VObject kvs) = list_all (\<lambda>(k, v). k \<notin> set NATIVE_KEYS \<and> settled v) kvs"
| "shallow v = False"

section \<open>Well-formed values and slots\<close>




section \<open>The object store\<close>

text \<open>
  The collections are host objects, and whether an operation changes the object it is
  invoked on is a question about objects, not about values. The store holds the objects
  that the constructors and \<^verbatim>\<open>set\<close> allocate and write to; an object is referred to by its
  position in the store. An object has its own enumerable properties, those of an array or
  of an instance of \<^verbatim>\<open>CrioArray\<close> (the elements, named by the indices) or those of a plain
  object or of an instance of \<^verbatim>\<open>CrioObject\<close> (in enumeration order), the hidden field
  \<^verbatim>\<open>$$hashCode\<close> when it has been defined, and the mark left by \<^verbatim>\<open>Object.freeze\<close>. The hidden
  field \<^verbatim>\<open>length\<close> is the number of properties. The values of the properties are the values
  of the sections above.
\<close>

datatype properties = Indexed "val list" | Keyed "(string \<times> val) list"

record object =
  own :: properties
  hiddenHash :: "int option"
  isFrozen :: bool

text \<open>
  What code of the host can do to the store: create an object, assign to a property by index
  or by name, delete a property, define the hidden field, freeze an object.
\<close>

datatype command =
    Allocate object
  | Assign nat nat val
  | AssignKey nat string val
  | Delete nat string
  | DefineHash nat int
  | Freeze nat

text \<open>The elements of an object read as an array, and its properties read as an object.\<close>

fun indexedOf :: "properties \<Rightarrow> val list" where
  "indexedOf (Indexed xs) = xs"
| "indexedOf (Keyed kvs) = []"

fun keyedOf :: "properties \<Rightarrow> (string \<times> val) list" where
  "keyedOf (Keyed kvs) = kvs"
| "keyedOf (Indexed xs) = indexedEntries xs"

definition allocate :: "object \<Rightarrow> object list \<Rightarrow> nat \<times> object list" where
  "allocate ob \<sigma> = (length \<sigma>, \<sigma> @ [ob])"

text \<open>
  \<^verbatim>\<open>object[index] = value\<close> and \<^verbatim>\<open>object[key] = value\<close> on the properties of an object that is not
  frozen. A write that would leave a hole in the elements, or give them a property that is
  not an index, is outside the fragment, as is deleting an element.
\<close>

fun assignOwn :: "properties \<Rightarrow> nat \<Rightarrow> val \<Rightarrow> error + properties" where
  "assignOwn (Indexed xs) i v =
     (if i > length xs then Inl Unsupported else Inr (Indexed (assignIndex xs i v)))"
| "assignOwn (Keyed kvs) i v = Inr (Keyed (putEntry (show_nat i) v kvs))"

fun assignOwnKey :: "properties \<Rightarrow> string \<Rightarrow> val \<Rightarrow> error + properties" where
  "assignOwnKey (Keyed kvs) name v = Inr (Keyed (putEntry name v kvs))"
| "assignOwnKey (Indexed xs) name v =
     (case indexOfName name (Suc (length xs)) of
        Some i \<Rightarrow> Inr (Indexed (assignIndex xs i v))
      | None \<Rightarrow> Inl Unsupported)"

fun deleteOwn :: "properties \<Rightarrow> string \<Rightarrow> error + properties" where
  "deleteOwn (Keyed kvs) name = Inr (Keyed (AList.delete name kvs))"
| "deleteOwn (Indexed xs) name =
     (case indexOfName name (length xs) of Some i \<Rightarrow> Inl Unsupported | None \<Rightarrow> Inr (Indexed xs))"

text \<open>
  Every write goes through \<^verbatim>\<open>change\<close>: the module is an ES module, hence strict code, where
  a write to a frozen object throws a \<^verbatim>\<open>TypeError\<close> and leaves the object as it was.
\<close>

definition change ::
  "nat \<Rightarrow> (object \<Rightarrow> error + object) \<Rightarrow> object list \<Rightarrow> error + object list" where
  "change ref f \<sigma> =
     (if \<not> ref < length \<sigma> \<or> isFrozen (\<sigma> ! ref) then Inl TypeError
      else case f (\<sigma> ! ref) of Inl e \<Rightarrow> Inl e | Inr ob \<Rightarrow> Inr (\<sigma>[ref := ob]))"

definition withOwn :: "(properties \<Rightarrow> error + properties) \<Rightarrow> object \<Rightarrow> error + object" where
  "withOwn g ob = (case g (own ob) of Inl e \<Rightarrow> Inl e | Inr p \<Rightarrow> Inr (ob\<lparr>own := p\<rparr>))"

definition assign :: "nat \<Rightarrow> nat \<Rightarrow> val \<Rightarrow> object list \<Rightarrow> error + object list" where
  "assign ref i v \<sigma> = change ref (withOwn (\<lambda>p. assignOwn p i v)) \<sigma>"

definition assignKey :: "nat \<Rightarrow> string \<Rightarrow> val \<Rightarrow> object list \<Rightarrow> error + object list" where
  "assignKey ref name v \<sigma> = change ref (withOwn (\<lambda>p. assignOwnKey p name v)) \<sigma>"

definition deleteKey :: "nat \<Rightarrow> string \<Rightarrow> object list \<Rightarrow> error + object list" where
  "deleteKey ref name \<sigma> = change ref (withOwn (\<lambda>p. deleteOwn p name)) \<sigma>"

text \<open>
  Modelled from the spec: \<^verbatim>\<open>setNonEnumerable\<close> of \<^verbatim>\<open>./utils\<close> attaches a hidden field to the
  object. It is called for \<^verbatim>\<open>$$hashCode\<close> and for \<^verbatim>\<open>length\<close> (lines 129-130, 700-701); the
  store keeps the first, the second is the number of properties.
\<close>

definition setNonEnumerable :: "nat \<Rightarrow> int \<Rightarrow> object list \<Rightarrow> error + object list" where
  "setNonEnumerable ref h \<sigma> = change ref (\<lambda>ob. Inr (ob\<lparr>hiddenHash := Some h\<rparr>)) \<sigma>"

text \<open>\<^verbatim>\<open>OBJECT_FREEZE\<close> (line 24) is \<^verbatim>\<open>Object.freeze\<close>.\<close>

definition OBJECT_FREEZE :: "nat \<Rightarrow> object list \<Rightarrow> object list" where
  "OBJECT_FREEZE ref \<sigma> =
     (if ref < length \<sigma> then \<sigma>[ref := (\<sigma> ! ref)\<lparr>isFrozen := True\<rparr>] else \<sigma>)"

text \<open>
  A command that throws leaves the store as it was; \<^verbatim>\<open>run\<close> executes a sequence of commands,
  going on after a command that has thrown.
\<close>

definition attempt :: "error + object list \<Rightarrow> object list \<Rightarrow> object list" where
  "attempt r \<sigma> = (case r of Inl e \<Rightarrow> \<sigma> | Inr \<sigma>' \<Rightarrow> \<sigma>')"

fun execute :: "command \<Rightarrow> object list \<Rightarrow> object list" where
  "execute (Allocate ob) \<sigma> = snd (allocate ob \<sigma>)"
| "execute (Assign ref i v) \<sigma> = attempt (assign ref i v \<sigma>) \<sigma>"
| "execute (AssignKey ref name v) \<sigma> = attempt (assignKey ref name v \<sigma>) \<sigma>"
| "execute (Delete ref name) \<sigma> = attempt (deleteKey ref name \<sigma>) \<sigma>"
| "execute (DefineHash ref h) \<sigma> = attempt (setNonEnumerable ref h \<sigma>) \<sigma>"
| "execute (Freeze ref) \<sigma> = OBJECT_FREEZE ref \<sigma>"

definition run :: "command list \<Rightarrow> object list \<Rightarrow> object list" where
  "run cmds \<sigma> = fold execute cmds \<sigma>"

text \<open>
  The constructor of \<^verbatim>\<open>CrioArray\<close> for a plain array (lines 116-133) and the constructor of
  \<^verbatim>\<open>CrioObject\<close> for a plain object (lines 681-704), on the store: \<^verbatim>\<open>this\<close> is a newly
  created object, the loop assigns the normalized items to it, the hash of the argument is
  attached, and the object is frozen and returned.
\<close>

fun store_forEach_items ::
  "(val \<Rightarrow> int) \<Rightarrow> nat \<Rightarrow> val list \<Rightarrow> nat \<Rightarrow> object list \<Rightarrow> nat \<Rightarrow> error + object list \<times> nat" where
  "store_forEach_items H this [] i \<sigma> s = Inr (\<sigma>, s)"
| "store_forEach_items H this (item # rest) i \<sigma> s =
     (let (y, s1) = getRealValue H item s
      in case assign this i y \<sigma> of
           Inl e \<Rightarrow> Inl e
         | Inr \<sigma>' \<Rightarrow> store_forEach_items H this rest (Suc i) \<sigma>' s1)"

fun store_forEach_keys ::
  "(val \<Rightarrow> int) \<Rightarrow> nat \<Rightarrow> (string \<times> val) list \<Rightarrow> object list \<Rightarrow> nat \<Rightarrow> error + object list \<times> nat" where
  "store_forEach_keys H this [] \<sigma> s = Inr (\<sigma>, s)"
| "store_forEach_keys H this ((k, item) # rest) \<sigma> s =
     (if k \<in> set NATIVE_KEYS then store_forEach_keys H this rest \<sigma> s
      else
        (let (y, s1) = getRealValue H item s
         in case assignKey this k y \<sigma> of
              Inl e \<Rightarrow> Inl e
            | Inr \<sigma>' \<Rightarrow> store_forEach_keys H this rest \<sigma>' s1))"

definition finish ::
  "nat \<Rightarrow> int \<Rightarrow> error + object list \<times> nat \<Rightarrow> error + nat \<times> object list \<times> nat" where
  "finish this hashCode r =
     (case r of
        Inl e \<Rightarrow> Inl e
      | Inr (\<sigma>, s) \<Rightarrow>
          (case setNonEnumerable this hashCode \<sigma> of
             Inl e \<Rightarrow> Inl e
           | Inr \<sigma>' \<Rightarrow> Inr (this, OBJECT_FREEZE this \<sigma>', s)))"

definition store_CrioArray ::
  "(val \<Rightarrow> int) \<Rightarrow> val list \<Rightarrow> object list \<Rightarrow> nat \<Rightarrow> error + nat \<times> object list \<times> nat" where
  "store_CrioArray H array \<sigma> s =
     (let (this, \<sigma>1) = allocate \<lparr>own = Indexed [], hiddenHash = None, isFrozen = False\<rparr> \<sigma>
      in finish this (H (VArray array)) (store_forEach_items H this array 0 \<sigma>1 (Suc s)))"

definition store_CrioObject ::
  "(val \<Rightarrow> int) \<Rightarrow> (string \<times> val) list \<Rightarrow> object list \<Rightarrow> nat
     \<Rightarrow> error + nat \<times> object list \<times> nat" where
  "store_CrioObject H object \<sigma> s =
     (let (this, \<sigma>1) = allocate \<lparr>own = Keyed [], hiddenHash = None, isFrozen = False\<rparr> \<sigma>
      in finish this (H (VObject object)) (store_forEach_keys H this object \<sigma>1 (Suc s)))"

text \<open>
  \<^verbatim>\<open>set\<close> of \<^verbatim>\<open>CrioArray\<close> (lines 511-523) and of \<^verbatim>\<open>CrioObject\<close> (lines 881-887) on the
  store: the clone is a newly created object holding the properties of \<^verbatim>\<open>this\<close>, the
  assignment goes to the clone, and \<^verbatim>\<open>returnCorrectObject\<close> (lines 70-76) returns \<^verbatim>\<open>this\<close> or
  constructs a collection from the clone.
\<close>

definition store_CrioArray_set ::
  "(val \<Rightarrow> int) \<Rightarrow> nat \<Rightarrow> nat \<Rightarrow> val \<Rightarrow> object list \<Rightarrow> nat \<Rightarrow> error + nat \<times> object list \<times> nat" where
  "store_CrioArray_set H this key v \<sigma> s =
     (if key > length (indexedOf (own (\<sigma> ! this))) then Inl RangeError
      else
        (let (clone, \<sigma>1) =
               allocate \<lparr>own = Indexed (indexedOf (own (\<sigma> ! this))), hiddenHash = None,
                         isFrozen = False\<rparr> \<sigma>
         in case assign clone key v \<sigma>1 of
              Inl e \<Rightarrow> Inl e
            | Inr \<sigma>2 \<Rightarrow>
                if hiddenHash (\<sigma>2 ! this) \<noteq> Some (H (VArray (indexedOf (own (\<sigma>2 ! clone)))))
                then store_CrioArray H (indexedOf (own (\<sigma>2 ! clone))) \<sigma>2 s
                else Inr (this, \<sigma>2, s)))"

definition store_CrioObject_set ::
  "(val \<Rightarrow> int) \<Rightarrow> nat \<Rightarrow> string \<Rightarrow> val \<Rightarrow> object list \<Rightarrow> nat
     \<Rightarrow> error + nat \<times> object list \<times> nat" where
  "store_CrioObject_set H this key v \<sigma> s =
     (let (clone, \<sigma>1) =
            allocate \<lparr>own = Keyed (keyedOf (own (\<sigma> ! this))), hiddenHash = None,
                      isFrozen = False\<rparr> \<sigma>
      in case assignKey clone key v \<sigma>1 of
           Inl e \<Rightarrow> Inl e
         | Inr \<sigma>2 \<Rightarrow>
             if hiddenHash (\<sigma>2 ! this) \<noteq> Some (H (VObject (keyedOf (own (\<sigma>2 ! clone)))))
             then store_CrioObject H (keyedOf (own (\<sigma>2 ! clone))) \<sigma>2 s
             else Inr (this, \<sigma>2, s))"

section \<open>Results\<close>

subsection \<open>The structural hash meets the contract\<close>

lemma string_code_inj: "map of_char k = (map of_char k' :: nat list) \<Longrightarrow> k = k'"
  by (simp add: inj_map_eq_map [OF inj_of_char])

lemma items_transfer:
  "(\<And>x b. x \<in> set xs \<Longrightarrow> encodeVal x = encodeVal b \<Longrightarrow> content x = content b) \<Longrightarrow>
   map encodeVal xs = map encodeVal ys \<Longrightarrow> map content xs = map content ys"
proof (induction xs arbitrary: ys)
  case Nil
  then show ?case by simp
next
  case (Cons x xs)
  from Cons.prems(2) obtain y rest where ys: "ys = y # rest" by (cases ys) auto
  from Cons.prems(2) have hd: "encodeVal x = encodeVal y"
    and tl: "map encodeVal xs = map encodeVal rest"
    by (simp_all add: ys)
  have "content x = content y"
    using Cons.prems(1) [of x y] hd by simp
  moreover have "map content xs = map content rest"
  proof (rule Cons.IH [OF _ tl])
    fix x b
    assume "x \<in> set xs" "encodeVal x = encodeVal b"
    then show "content x = content b"
      using Cons.prems(1) [of x b] by simp
  qed
  ultimately show ?case by (simp add: ys)
qed

lemma entries_transfer:
  "(\<And>k v b. (k, v) \<in> set kvs \<Longrightarrow> encodeVal v = encodeVal b \<Longrightarrow> content v = content b) \<Longrightarrow>
   map (\<lambda>(k, v). prod_encode (list_encode (map of_char k), encodeVal v)) kvs
     = map (\<lambda>(k, v). prod_encode (list_encode (map of_char k), encodeVal v)) kvs' \<Longrightarrow>
   map (\<lambda>(k, v). (k, content v)) kvs = map (\<lambda>(k, v). (k, content v)) kvs'"
proof (induction kvs arbitrary: kvs')
  case Nil
  then show ?case by simp
next
  case (Cons e kvs)
  obtain k v where e: "e = (k, v)" by (cases e)
  from Cons.prems(2) obtain e' rest where kvs': "kvs' = e' # rest" by (cases kvs') auto
  obtain k' v' where e': "e' = (k', v')" by (cases e')
  from Cons.prems(2) have hd: "k = k'" "encodeVal v = encodeVal v'"
    and tl: "map (\<lambda>(k, v). prod_encode (list_encode (map of_char k), encodeVal v)) kvs
       = map (\<lambda>(k, v). prod_encode (list_encode (map of_char k), encodeVal v)) rest"
    by (auto simp: e e' kvs' list_encode_eq dest: string_code_inj)
  have "content v = content v'"
    using Cons.prems(1) [of k v v'] hd by (simp add: e)
  moreover have "map (\<lambda>(k, v). (k, content v)) kvs = map (\<lambda>(k, v). (k, content v)) rest"
  proof (rule Cons.IH [OF _ tl])
    fix k v b
    assume "(k, v) \<in> set kvs" "encodeVal v = encodeVal b"
    then show "content v = content b"
      using Cons.prems(1) [of k v b] by simp
  qed
  ultimately show ?case by (simp add: e e' kvs' hd)
qed

lemma array_code_inj:
  assumes ih: "\<And>x b. x \<in> set xs \<Longrightarrow> encodeVal x = encodeVal b \<Longrightarrow> content x = content b"
    and eq: "prod_encode (5, list_encode (map encodeVal xs)) = encodeVal b"
  shows "VArray (map content xs) = content b"
proof (cases b)
  case (VArray ys)
  with eq have "map encodeVal xs = map encodeVal ys" by (simp add: list_encode_eq)
  from items_transfer [OF ih this] show ?thesis by (simp add: VArray)
next
  case (VCrioArray j g ys)
  with eq have "map encodeVal xs = map encodeVal ys" by (simp add: list_encode_eq)
  from items_transfer [OF ih this] show ?thesis by (simp add: VCrioArray)
qed (use eq in simp_all)

lemma object_code_inj:
  assumes ih: "\<And>k v b. (k, v) \<in> set kvs \<Longrightarrow> encodeVal v = encodeVal b \<Longrightarrow> content v = content b"
    and eq: "prod_encode (6, list_encode
               (map (\<lambda>(k, v). prod_encode (list_encode (map of_char k), encodeVal v)) kvs))
             = encodeVal b"
  shows "VObject (map (\<lambda>(k, v). (k, content v)) kvs) = content b"
proof (cases b)
  case (VObject ys)
  with eq have "map (\<lambda>(k, v). prod_encode (list_encode (map of_char k), encodeVal v)) kvs
     = map (\<lambda>(k, v). prod_encode (list_encode (map of_char k), encodeVal v)) ys"
    by (simp add: list_encode_eq)
  from entries_transfer [OF ih this] show ?thesis by (simp add: VObject)
next
  case (VCrioObject j g ys)
  with eq have "map (\<lambda>(k, v). prod_encode (list_encode (map of_char k), encodeVal v)) kvs
     = map (\<lambda>(k, v). prod_encode (list_encode (map of_char k), encodeVal v)) ys"
    by (simp add: list_encode_eq)
  from entries_transfer [OF ih this] show ?thesis by (simp add: VCrioObject)
qed (use eq in simp_all)

lemma encodeVal_inj: "encodeVal a = encodeVal b \<Longrightarrow> content a = content b"
proof (induction a arbitrary: b)
  case (VArray xs)
  have ih: "\<And>x b. x \<in> set xs \<Longrightarrow> encodeVal x = encodeVal b \<Longrightarrow> content x = content b"
    using VArray.IH by blast
  from array_code_inj [OF ih] VArray.prems show ?case by simp
next
  case (VCrioArray i h xs)
  have ih: "\<And>x b. x \<in> set xs \<Longrightarrow> encodeVal x = encodeVal b \<Longrightarrow> content x = content b"
    using VCrioArray.IH by blast
  from array_code_inj [OF ih] VCrioArray.prems show ?case by simp
next
  case (VObject kvs)
  have ih: "\<And>k v b. (k, v) \<in> set kvs \<Longrightarrow> encodeVal v = encodeVal b \<Longrightarrow> content v = content b"
    using VObject.IH by force
  from object_code_inj [OF ih] VObject.prems show ?case by simp
next
  case (VCrioObject i h kvs)
  have ih: "\<And>k v b. (k, v) \<in> set kvs \<Longrightarrow> encodeVal v = encodeVal b \<Longrightarrow> content v = content b"
    using VCrioObject.IH by force
  from object_code_inj [OF ih] VCrioObject.prems show ?case by simp
next
  case (VStr s)
  then show ?case by (cases b) (simp_all add: list_encode_eq string_code_inj)
next
  case VUndefined
  then show ?case by (cases b) simp_all
next
  case VNull
  then show ?case by (cases b) simp_all
next
  case (VBool x)
  then show ?case by (cases b) (simp_all split: if_splits)
next
  case (VNum x)
  then show ?case by (cases b) (simp_all add: int_encode_eq)
qed

lemma encodeVal_content: "encodeVal (content v) = encodeVal v"
proof (induction v)
  case (VArray xs)
  then have *: "map (encodeVal \<circ> content) xs = map encodeVal xs"
    by (intro map_cong) auto
  show ?case by (simp add: *)
next
  case (VCrioArray i h xs)
  then have *: "map (encodeVal \<circ> content) xs = map encodeVal xs"
    by (intro map_cong) auto
  show ?case by (simp add: *)
next
  case (VObject kvs)
  then have *: "map ((\<lambda>(k, v). prod_encode (list_encode (map of_char k), encodeVal v))
                      \<circ> (\<lambda>(k, v). (k, content v))) kvs
     = map (\<lambda>(k, v). prod_encode (list_encode (map of_char k), encodeVal v)) kvs"
    by (intro map_cong) auto
  show ?case by (simp add: *)
next
  case (VCrioObject i h kvs)
  then have *: "map ((\<lambda>(k, v). prod_encode (list_encode (map of_char k), encodeVal v))
                      \<circ> (\<lambda>(k, v). (k, content v))) kvs
     = map (\<lambda>(k, v). prod_encode (list_encode (map of_char k), encodeVal v)) kvs"
    by (intro map_cong) auto
  show ?case by (simp add: *)
qed simp_all

lemma structuralHash_eq_iff: "structuralHash a = structuralHash b \<longleftrightarrow> content a = content b"
proof
  assume "structuralHash a = structuralHash b"
  then have "encodeVal a = encodeVal b"
    by (simp add: structuralHash_def)
  then show "content a = content b"
    by (rule encodeVal_inj)
next
  assume "content a = content b"
  then have "encodeVal (content a) = encodeVal (content b)" by simp
  then show "structuralHash a = structuralHash b"
    by (simp add: structuralHash_def encodeVal_content)
qed



subsection \<open>Idempotent wrapping\<close>

text \<open>
  C9. For every value \<open>c\<close> that is already a collection of either kind, both constructors
  return \<open>c\<close> itself and allocate nothing: the entry check of each constructor is
  \<^verbatim>\<open>isCrio\<close>, which does not look at the variant, so \<^verbatim>\<open>new CrioArray\<close> applied to a
  \<^verbatim>\<open>CrioObject\<close> returns that \<^verbatim>\<open>CrioObject\<close>.
\<close>

theorem constructor_returns_existing_collection:
  assumes "isCrio c"
  shows "CrioArray_constructor H c s = (c, s) \<and> CrioObject_constructor H c s = (c, s)"
  using assms by (cases c) simp_all

theorem constructor_returns_existing_collection_witness:
  "isCrio (VCrioObject 0 7 [(''a'', VNum 1)])
   \<and> CrioArray_constructor (\<lambda>v. 0) (VCrioObject 0 7 [(''a'', VNum 1)]) 1
       = (VCrioObject 0 7 [(''a'', VNum 1)], 1)
   \<and> CrioObject_constructor (\<lambda>v. 0) (VCrioObject 0 7 [(''a'', VNum 1)]) 1
       = (VCrioObject 0 7 [(''a'', VNum 1)], 1)"
  using constructor_returns_existing_collection
          [of "VCrioObject 0 7 [(''a'', VNum 1)]" "\<lambda>v. 0" 1]
  by simp

subsection \<open>Calls without arguments\<close>

text \<open>
  C10. For every indexed collection \<open>c\<close>, \<^verbatim>\<open>concat\<close>, \<^verbatim>\<open>slice\<close> and \<^verbatim>\<open>unshift\<close> called with
  no argument return \<open>c\<close> itself, the same instance, and allocate nothing.
\<close>

theorem no_argument_call_returns_this:
  "CrioArray_concat H c [] s = (c, s)
   \<and> CrioArray_slice H c [] s = (c, s)
   \<and> CrioArray_unshift H c [] s = (c, s)"
  by (simp add: CrioArray_concat_def CrioArray_slice_def CrioArray_unshift_def)

text \<open>
  C7 as stated fails: called without an argument, each of the three operations returns the
  original instance and leaves the allocation counter alone.
\<close>

theorem argument_call_counterexample:
  "fst (CrioArray_concat structuralHash (fst (crio structuralHash (VArray [VNum 1, VNum 2]) 0)) [] 1)
     = fst (crio structuralHash (VArray [VNum 1, VNum 2]) 0)
   \<and> fst (CrioArray_slice structuralHash (fst (crio structuralHash (VArray [VNum 1, VNum 2]) 0)) [] 1)
     = fst (crio structuralHash (VArray [VNum 1, VNum 2]) 0)
   \<and> fst (CrioArray_unshift structuralHash (fst (crio structuralHash (VArray [VNum 1, VNum 2]) 0)) [] 1)
     = fst (crio structuralHash (VArray [VNum 1, VNum 2]) 0)
   \<and> snd (CrioArray_slice structuralHash (fst (crio structuralHash (VArray [VNum 1, VNum 2]) 0)) [] 1) = 1"
  by (simp add: CrioArray_concat_def CrioArray_slice_def CrioArray_unshift_def)

subsection \<open>The index check of \<^verbatim>\<open>set\<close>\<close>

lemma assignIndex_nth: "i \<le> length xs \<Longrightarrow> assignIndex xs i v ! i = v"
  by (auto simp: assignIndex_def nth_append)

lemma assignIndex_length: "i \<le> length xs \<Longrightarrow> length (assignIndex xs i v) = max (length xs) (Suc i)"
  by (auto simp: assignIndex_def)

lemma assignIndex_other: "j < length xs \<Longrightarrow> j \<noteq> i \<Longrightarrow> assignIndex xs i v ! j = xs ! j"
  by (auto simp: assignIndex_def nth_append)

text \<open>
  C2. For an indexed collection of length \<open>n\<close>, \<^verbatim>\<open>set(i, v)\<close> throws its error (the one
  the spec calls RangeError) exactly when \<open>i > n\<close>, and then nothing has been allocated.
  For \<open>i \<le> n\<close> the result is what the change-detection gate returns for the original and
  the clone with \<open>v\<close> assigned at \<open>i\<close>: the clone has \<open>v\<close> at \<open>i\<close>, keeps every other
  slot, and is one longer when \<open>i = n\<close>. The witness has \<^verbatim>\<open>wrap([1, 2, 3]).set(5, 9)\<close>
  failing and \<^verbatim>\<open>set(3, 9)\<close> appending.
\<close>

theorem CrioArray_set_index_check:
  "(fst (CrioArray_set H (VCrioArray c h xs) i v s) = Inl RangeError) = (length xs < i)
   \<and> (length xs < i \<longrightarrow> CrioArray_set H (VCrioArray c h xs) i v s = (Inl RangeError, s))
   \<and> (i \<le> length xs \<longrightarrow>
        CrioArray_set H (VCrioArray c h xs) i v s =
          (Inr (fst (returnCorrectObject H (VCrioArray c h xs) (VArray (assignIndex xs i v))
                      (CrioArray_constructor H) s)),
           snd (returnCorrectObject H (VCrioArray c h xs) (VArray (assignIndex xs i v))
                      (CrioArray_constructor H) s))
        \<and> length (assignIndex xs i v) = max (length xs) (Suc i)
        \<and> assignIndex xs i v ! i = v
        \<and> (\<forall>j < length xs. j \<noteq> i \<longrightarrow> assignIndex xs i v ! j = xs ! j))"
  by (simp add: CrioArray_set_def shallowCloneArray_def assignIndex_nth assignIndex_length
        assignIndex_other split: prod.splits)

theorem CrioArray_set_index_check_witness:
  "crio structuralHash (VArray [VNum 1, VNum 2, VNum 3]) 0
     = (VCrioArray 0 (structuralHash (VArray [VNum 1, VNum 2, VNum 3])) [VNum 1, VNum 2, VNum 3], 1)
   \<and> length [VNum 1, VNum 2, VNum 3] < (5::nat)
   \<and> CrioArray_set structuralHash
        (VCrioArray 0 (structuralHash (VArray [VNum 1, VNum 2, VNum 3])) [VNum 1, VNum 2, VNum 3])
        5 (VNum 9) 1 = (Inl RangeError, 1)
   \<and> (3::nat) \<le> length [VNum 1, VNum 2, VNum 3]
   \<and> CrioArray_set structuralHash
        (VCrioArray 0 (structuralHash (VArray [VNum 1, VNum 2, VNum 3])) [VNum 1, VNum 2, VNum 3])
        3 (VNum 9) 1
       = (Inr (VCrioArray 1 (structuralHash (VArray [VNum 1, VNum 2, VNum 3, VNum 9]))
                 [VNum 1, VNum 2, VNum 3, VNum 9]), 2)"
  using CrioArray_set_index_check
          [of structuralHash 0 "structuralHash (VArray [VNum 1, VNum 2, VNum 3])"
              "[VNum 1, VNum 2, VNum 3]" 5 "VNum 9" 1]
        CrioArray_set_index_check
          [of structuralHash 0 "structuralHash (VArray [VNum 1, VNum 2, VNum 3])"
              "[VNum 1, VNum 2, VNum 3]" 3 "VNum 9" 1]
  by (simp add: crio_def returnCorrectObject_def hasChanged_def assignIndex_def
        structuralHash_eq_iff)

subsection \<open>Calls with arguments\<close>

lemma constructor_identity:
  "identityOf (fst (CrioArray_constructor H (VArray xs) s)) = Some s"
  by (simp split: prod.splits)

lemma fresh_instance:
  "identityOf c = Some i \<Longrightarrow> i < s \<Longrightarrow> fst (CrioArray_constructor H (VArray xs) s) \<noteq> c"
  by (cases c) (auto split: prod.splits)

text \<open>
  C7, amended. Called with at least one argument, \<^verbatim>\<open>concat\<close>, \<^verbatim>\<open>slice\<close> and \<^verbatim>\<open>unshift\<close>
  construct a new instance: its identity is the current value of the allocation counter,
  so it is never the collection \<open>c\<close> the method was called on, which was allocated earlier.
  This holds also when the new sequence has the same values, as in the witness
  (\<^verbatim>\<open>concat([])\<close> and \<^verbatim>\<open>slice(0)\<close>).
\<close>

theorem argument_call_allocates:
  assumes "identityOf c = Some i" and "i < s"
  shows "(arrays \<noteq> [] \<longrightarrow>
            identityOf (fst (CrioArray_concat H c arrays s)) = Some s
          \<and> fst (CrioArray_concat H c arrays s) \<noteq> c)
       \<and> (args \<noteq> [] \<longrightarrow>
            identityOf (fst (CrioArray_slice H c args s)) = Some s
          \<and> fst (CrioArray_slice H c args s) \<noteq> c)
       \<and> (items \<noteq> [] \<longrightarrow>
            identityOf (fst (CrioArray_unshift H c items s)) = Some s
          \<and> fst (CrioArray_unshift H c items s) \<noteq> c)"
  using fresh_instance [OF assms]
  by (simp add: CrioArray_concat_def CrioArray_slice_def CrioArray_unshift_def Let_def
        constructor_identity del: CrioArray_constructor.simps)

theorem argument_call_allocates_witness:
  "identityOf (VCrioArray 0 (structuralHash (VArray [VNum 1, VNum 2])) [VNum 1, VNum 2]) = Some 0
   \<and> (0::nat) < 1
   \<and> [VArray []] \<noteq> [] \<and> [0::int] \<noteq> [] \<and> [VNum 0] \<noteq> []
   \<and> fst (CrioArray_concat structuralHash
             (VCrioArray 0 (structuralHash (VArray [VNum 1, VNum 2])) [VNum 1, VNum 2]) [VArray []] 1)
       = VCrioArray 1 (structuralHash (VArray [VNum 1, VNum 2])) [VNum 1, VNum 2]
   \<and> fst (CrioArray_slice structuralHash
             (VCrioArray 0 (structuralHash (VArray [VNum 1, VNum 2])) [VNum 1, VNum 2]) [0] 1)
       = VCrioArray 1 (structuralHash (VArray [VNum 1, VNum 2])) [VNum 1, VNum 2]
   \<and> fst (CrioArray_unshift structuralHash
             (VCrioArray 0 (structuralHash (VArray [VNum 1, VNum 2])) [VNum 1, VNum 2]) [VNum 0] 1)
       \<noteq> VCrioArray 0 (structuralHash (VArray [VNum 1, VNum 2])) [VNum 1, VNum 2]"
  using argument_call_allocates
          [of "VCrioArray 0 (structuralHash (VArray [VNum 1, VNum 2])) [VNum 1, VNum 2]" 0 1
              "[VArray []]" structuralHash "[0]" "[VNum 0]"]
  by (simp add: CrioArray_concat_def CrioArray_slice_def shallowCloneArray_def
        nativeSlice_def relativeIndex_def)

subsection \<open>The key-path argument\<close>

text \<open>
  The only \<^verbatim>\<open>Error\<close> the deep-path operations throw themselves is the one for a key path
  that is no array; whatever else goes wrong below is raised by the host.
\<close>

lemma getProperty_no_Error: "getProperty ob k \<noteq> Inl (Error m)"
  by (simp add: getProperty_def split: option.splits)

lemma setOwnProperty_no_Error: "setOwnProperty ob n v \<noteq> Inl (Error m)"
  by (cases ob) (simp_all split: option.splits)

lemma setProperty_no_Error: "setProperty ob k v \<noteq> Inl (Error m)"
  by (simp add: setProperty_def setOwnProperty_no_Error split: option.splits)

lemma nativeMap_no_Error: "nativeMap (mergeItem ob) i xs \<noteq> Inl (Error m)"
  by (induction xs arbitrary: i)
     (auto simp: mergeItem_def getProperty_no_Error split: sum.splits)

lemma forEach_merge_no_Error: "forEach_merge clone obs \<noteq> Inl (Error m)"
  by (induction obs arbitrary: clone)
     (auto simp: nativeMap_no_Error split: sum.splits val.splits)

lemma CrioArray_merge_no_Error: "fst (CrioArray_merge H this obs s) \<noteq> Inl (Error m)"
  by (auto simp: CrioArray_merge_def Let_def forEach_merge_no_Error split: sum.splits prod.splits)

lemma assignEntries_no_Error: "assignEntries clone kvs \<noteq> Inl (Error m)"
  by (induction kvs arbitrary: clone)
     (auto simp: setOwnProperty_no_Error split: sum.splits)

lemma objectAssign_no_Error: "objectAssign clone ob \<noteq> Inl (Error m)"
  by (cases clone) (simp_all add: assignEntries_no_Error)

lemma forEach_assign_no_Error: "forEach_assign clone obs \<noteq> Inl (Error m)"
  by (induction obs arbitrary: clone)
     (auto simp: objectAssign_no_Error split: sum.splits)

lemma CrioObject_merge_no_Error: "fst (CrioObject_merge H this obs s) \<noteq> Inl (Error m)"
  by (auto simp: CrioObject_merge_def Let_def forEach_assign_no_Error split: sum.splits prod.splits)

lemma sum_case_no_Error:
  assumes "Y \<noteq> Inl (Error m)" and "\<And>r. fst (g r) \<noteq> Inl (Error m)"
  shows "fst (case Y of Inl e \<Rightarrow> (Inl e, s) | Inr r \<Rightarrow> g r) \<noteq> Inl (Error m)"
  using assms by (cases Y) auto

lemma res_case_no_Error:
  assumes "fst X \<noteq> Inl (Error m)" and "\<And>r s'. fst (g r s') \<noteq> Inl (Error m)"
  shows "fst (case X of (Inl e, s') \<Rightarrow> (Inl e, s') | (Inr r, s') \<Rightarrow> g r s') \<noteq> Inl (Error m)"
  using assms by (cases X; cases "fst X") auto

lemma if_no_Error:
  "(c \<Longrightarrow> fst A \<noteq> E) \<Longrightarrow> (\<not> c \<Longrightarrow> fst B \<noteq> E) \<Longrightarrow> fst (if c then A else B) \<noteq> E"
  by simp

lemma forEach_deep_no_Error: "fst (forEach_deep H cur ks v mg s) \<noteq> Inl (Error m)"
proof (induction ks arbitrary: cur s)
  case Nil
  then show ?case by simp
next
  case (Cons k ks)
  show ?case
    unfolding forEach_deep.simps
    by (intro sum_case_no_Error res_case_no_Error if_no_Error Cons.IH
          CrioArray_merge_no_Error CrioObject_merge_no_Error)
       (simp_all add: getProperty_no_Error setProperty_no_Error)
qed

lemma assignOnDeepMatch_no_Error: "fst (assignOnDeepMatch H ob ks v mg s) \<noteq> Inl (Error m)"
  unfolding assignOnDeepMatch_def Let_def
  by (intro res_case_no_Error forEach_deep_no_Error) (simp split: prod.splits)

lemma getIn_loop_no_Error: "getIn_loop cur ks \<noteq> Inl (Error m)"
  by (induction ks arbitrary: cur)
     (auto simp: getProperty_no_Error split: sum.splits)

text \<open>
  C5. For every collection and every argument \<open>x\<close>, \<^verbatim>\<open>getIn(x)\<close>, \<^verbatim>\<open>setIn(x, v)\<close> and
  \<^verbatim>\<open>mergeIn(x, ...objects)\<close> throw the key-path error (the one the spec calls
  ArgumentError) exactly when \<open>x\<close> is not an array. When they throw it nothing has been
  allocated: the allocation counter is the one the call started with. The witness has
  \<^verbatim>\<open>wrap({a: 1}).getIn('a')\<close> failing and \<^verbatim>\<open>getIn(['a'])\<close> returning 1.
\<close>

theorem key_path_argument_check:
  "(getIn this x = Inl ArgumentError) = (\<not> isArray x)
   \<and> (fst (setIn H this x v s) = Inl ArgumentError) = (\<not> isArray x)
   \<and> (fst (mergeIn H this x objects s) = Inl ArgumentError) = (\<not> isArray x)
   \<and> (\<not> isArray x \<longrightarrow>
         setIn H this x v s = (Inl ArgumentError, s)
       \<and> mergeIn H this x objects s = (Inl ArgumentError, s))"
  by (simp add: getIn_def setIn_def mergeIn_def ArgumentError_def getIn_loop_no_Error
        assignOnDeepMatch_no_Error)

theorem key_path_argument_check_witness:
  "\<not> isArray (VStr ''a'')
   \<and> getIn (fst (crio structuralHash (VObject [(''a'', VNum 1)]) 0)) (VStr ''a'') = Inl ArgumentError
   \<and> setIn structuralHash (fst (crio structuralHash (VObject [(''a'', VNum 1)]) 0)) (VStr ''a'') (VNum 2) 1
       = (Inl ArgumentError, 1)
   \<and> mergeIn structuralHash (fst (crio structuralHash (VObject [(''a'', VNum 1)]) 0)) (VStr ''a'')
         [VObject [(''b'', VNum 2)]] 1
       = (Inl ArgumentError, 1)
   \<and> getIn (fst (crio structuralHash (VObject [(''a'', VNum 1)]) 0)) (VArray [VStr ''a'']) = Inr (VNum 1)"
  using key_path_argument_check
          [of "fst (crio structuralHash (VObject [(''a'', VNum 1)]) 0)" "VStr ''a''"
              structuralHash "VNum 2" 1 "[VObject [(''b'', VNum 2)]]"]
  by (simp add: crio_def getIn_def getProperty_def NATIVE_KEYS_def)

subsection \<open>Iterating a keyed collection\<close>

text \<open>
  C4 as stated fails: an iteration step of a keyed collection yields the value of the
  slot, not the pair of key and value. For \<^verbatim>\<open>wrap({a: 1})\<close> the first step yields 1.
\<close>

theorem keyed_iteration_counterexample:
  "value (fst (CrioObject_next (fst (crio structuralHash (VObject [(''a'', VNum 1)]) 0))
                 (CrioObject_iterator (fst (crio structuralHash (VObject [(''a'', VNum 1)]) 0)))))
     = VNum 1
   \<and> value (fst (CrioObject_next (fst (crio structuralHash (VObject [(''a'', VNum 1)]) 0))
                 (CrioObject_iterator (fst (crio structuralHash (VObject [(''a'', VNum 1)]) 0)))))
     \<noteq> VArray [VStr ''a'', VNum 1]"
  by (simp add: crio_def NATIVE_KEYS_def CrioObject_iterator_def CrioObject_next_def Let_def)

lemma iterate_from:
  assumes "distinct (map fst kvs)"
  shows "iterate (VCrioObject i h kvs) \<lparr>keys = map fst kvs, index = n\<rparr> = map snd (drop n kvs)"
proof (induction "length kvs - n" arbitrary: n)
  case 0
  then show ?case
    by (subst iterate.simps) (simp add: CrioObject_next_def crioLength_def Let_def)
next
  case (Suc d)
  then have n: "n < length kvs" by simp
  have "map_of kvs (fst (kvs ! n)) = Some (snd (kvs ! n))"
    using assms n by (intro map_of_is_SomeI) (simp_all)
  moreover have "drop n kvs = kvs ! n # drop (Suc n) kvs"
    using n by (simp add: Cons_nth_drop_Suc)
  moreover have "iterate (VCrioObject i h kvs) \<lparr>keys = map fst kvs, index = Suc n\<rparr>
      = map snd (drop (Suc n) kvs)"
    using Suc.hyps(1) [of "Suc n"] Suc.hyps(2) by simp
  ultimately show ?case
    using n by (subst iterate.simps) (simp add: CrioObject_next_def crioLength_def Let_def)
qed

text \<open>
  C4, amended. For a keyed collection with slots \<open>kvs\<close> (distinct keys, in enumeration
  order), every call for an iterator starts a fresh traversal at index 0 over the keys in
  that order; step \<open>n\<close> yields the value of slot \<open>n\<close> and is not done; a step is done
  exactly when the index has reached the number of slots; every step moves the index
  forward by one and keeps the key list. So the traversal yields the slot values, one per
  slot, in key-enumeration order, and then ends.
\<close>

theorem keyed_iteration_yields_values:
  assumes "distinct (map fst kvs)"
  shows "keys (CrioObject_iterator (VCrioObject i h kvs)) = map fst kvs
       \<and> index (CrioObject_iterator (VCrioObject i h kvs)) = 0
       \<and> iterate (VCrioObject i h kvs) (CrioObject_iterator (VCrioObject i h kvs)) = map snd kvs
       \<and> (\<forall>n < length kvs.
            fst (CrioObject_next (VCrioObject i h kvs) \<lparr>keys = map fst kvs, index = n\<rparr>)
              = \<lparr>value = snd (kvs ! n), done = False\<rparr>)
       \<and> done (fst (CrioObject_next (VCrioObject i h kvs) it)) = (length kvs \<le> index it)
       \<and> index (snd (CrioObject_next (VCrioObject i h kvs) it)) = index it + 1
       \<and> keys (snd (CrioObject_next (VCrioObject i h kvs) it)) = keys it"
proof -
  have "\<And>n. n < length kvs \<Longrightarrow> map_of kvs (fst (kvs ! n)) = Some (snd (kvs ! n))"
    using assms by (intro map_of_is_SomeI) (simp_all)
  then show ?thesis
    using iterate_from [OF assms, of i h 0]
    by (simp add: CrioObject_iterator_def CrioObject_next_def crioLength_def Let_def)
qed

theorem keyed_iteration_yields_values_witness:
  "distinct (map fst [(''a'', VNum 1), (''b'', VNum 2)])
   \<and> fst (crio structuralHash (VObject [(''a'', VNum 1), (''b'', VNum 2)]) 0)
       = VCrioObject 0 (structuralHash (VObject [(''a'', VNum 1), (''b'', VNum 2)]))
           [(''a'', VNum 1), (''b'', VNum 2)]
   \<and> iterate (VCrioObject 0 (structuralHash (VObject [(''a'', VNum 1), (''b'', VNum 2)]))
                 [(''a'', VNum 1), (''b'', VNum 2)])
        (CrioObject_iterator
           (VCrioObject 0 (structuralHash (VObject [(''a'', VNum 1), (''b'', VNum 2)]))
              [(''a'', VNum 1), (''b'', VNum 2)]))
       = [VNum 1, VNum 2]"
  using keyed_iteration_yields_values
          [of "[(''a'', VNum 1), (''b'', VNum 2)]" 0
              "structuralHash (VObject [(''a'', VNum 1), (''b'', VNum 2)])"]
  by (simp add: crio_def NATIVE_KEYS_def)

subsection \<open>No-op elision\<close>

text \<open>
  C1 as stated fails. The hash code of a collection is the hash of the raw argument of
  its constructor, while \<^verbatim>\<open>set\<close> hashes a clone of the slots, and the two values differ
  in two cases. The slots of a keyed collection leave out the properties named like a
  hidden field: for \<^verbatim>\<open>c = wrap({length: 3, a: 1})\<close>, \<^verbatim>\<open>c.set('a', c.get('a'))\<close> is a new
  instance. And a nested plain array or object has become a collection instance in the
  slot: for \<^verbatim>\<open>c = wrap([[1], [2]])\<close>, \<^verbatim>\<open>c.set(0, c.get(0))\<close> is a new instance under a hash
  that tells an instance from a plain array.
\<close>

theorem set_of_get_counterexample:
  "crio instanceHash (VObject [(''length'', VNum 3), (''a'', VNum 1)]) 0
     = (VCrioObject 0 (instanceHash (VObject [(''length'', VNum 3), (''a'', VNum 1)]))
          [(''a'', VNum 1)], 1)
   \<and> CrioObject_get
         (VCrioObject 0 (instanceHash (VObject [(''length'', VNum 3), (''a'', VNum 1)]))
            [(''a'', VNum 1)]) ''a''
       = VNum 1
   \<and> CrioObject_set instanceHash
         (VCrioObject 0 (instanceHash (VObject [(''length'', VNum 3), (''a'', VNum 1)]))
            [(''a'', VNum 1)])
         ''a'' (VNum 1) 1
       = (VCrioObject 1 (instanceHash (VObject [(''a'', VNum 1)])) [(''a'', VNum 1)], 2)
   \<and> crio instanceHash (VArray [VArray [VNum 1], VArray [VNum 2]]) 0
       = (VCrioArray 0 (instanceHash (VArray [VArray [VNum 1], VArray [VNum 2]]))
            [VCrioArray 1 (instanceHash (VArray [VNum 1])) [VNum 1],
             VCrioArray 2 (instanceHash (VArray [VNum 2])) [VNum 2]], 3)
   \<and> CrioArray_get
         (VCrioArray 0 (instanceHash (VArray [VArray [VNum 1], VArray [VNum 2]]))
            [VCrioArray 1 (instanceHash (VArray [VNum 1])) [VNum 1],
             VCrioArray 2 (instanceHash (VArray [VNum 2])) [VNum 2]]) 0
       = VCrioArray 1 (instanceHash (VArray [VNum 1])) [VNum 1]
   \<and> CrioArray_set instanceHash
         (VCrioArray 0 (instanceHash (VArray [VArray [VNum 1], VArray [VNum 2]]))
            [VCrioArray 1 (instanceHash (VArray [VNum 1])) [VNum 1],
             VCrioArray 2 (instanceHash (VArray [VNum 2])) [VNum 2]])
         0 (VCrioArray 1 (instanceHash (VArray [VNum 1])) [VNum 1]) 3
       = (Inr (VCrioArray 3
                 (instanceHash (VArray
                    [VCrioArray 1 (instanceHash (VArray [VNum 1])) [VNum 1],
                     VCrioArray 2 (instanceHash (VArray [VNum 2])) [VNum 2]]))
                 [VCrioArray 1 (instanceHash (VArray [VNum 1])) [VNum 1],
                  VCrioArray 2 (instanceHash (VArray [VNum 2])) [VNum 2]]), 4)"
  by (simp add: crio_def NATIVE_KEYS_def CrioObject_get_def CrioArray_get_def
        CrioObject_set_def CrioArray_set_def shallowCloneArray_def assignIndex_def putEntry_def
        returnCorrectObject_def hasChanged_def instanceHash_def list_encode_eq)


text \<open>The slots of the collection built from a shallow raw value are its elements.\<close>

lemma getRealValue_settled: "settled v \<Longrightarrow> getRealValue H v s = (v, s)"
  by (cases v) simp_all

lemma forEach_items_settled: "list_all settled xs \<Longrightarrow> forEach_items H xs s = (xs, s)"
  by (induction xs arbitrary: s) (simp_all add: getRealValue_settled)

lemma forEach_keys_settled:
  "list_all (\<lambda>(k, v). k \<notin> set NATIVE_KEYS \<and> settled v) kvs \<Longrightarrow> forEach_keys H kvs s = (kvs, s)"
  by (induction kvs arbitrary: s) (auto simp: getRealValue_settled)

text \<open>
  C1, amended. Let \<open>c\<close> be the collection built from a raw array or object that is
  shallow: its elements are primitives or collection instances (no nested plain array or
  object), and an object has no property named \<^verbatim>\<open>$$hashCode\<close>, \<^verbatim>\<open>$$type\<close> or \<^verbatim>\<open>length\<close>.
  Then for every index \<open>k\<close> below the length of an indexed \<open>c\<close>, and for every key \<open>name\<close>
  of a slot of a keyed \<open>c\<close>, \<^verbatim>\<open>c.set(k, c.get(k))\<close> returns \<open>c\<close> itself and allocates
  nothing, whatever the hash function is: the clone that \<^verbatim>\<open>set\<close> hashes is structurally
  identical to the raw value the hash code was computed from. The gate
  \<^verbatim>\<open>returnCorrectObject\<close> returns the original exactly when the hash of the candidate
  equals the hash code of the original, and otherwise what the constructor makes of the
  candidate.
\<close>

theorem gate_and_set_of_get:
  assumes "shallow raw"
  shows "(isArray raw \<and> k < length (arrayItems raw) \<longrightarrow>
           CrioArray_set H (fst (crio H raw s0)) k (CrioArray_get (fst (crio H raw s0)) k) s
             = (Inr (fst (crio H raw s0)), s))
       \<and> (isObject raw \<and> name \<in> fst ` set (ownEntries (fst (crio H raw s0))) \<longrightarrow>
           CrioObject_set H (fst (crio H raw s0)) name
               (CrioObject_get (fst (crio H raw s0)) name) s
             = (fst (crio H raw s0), s))
       \<and> returnCorrectObject H c candidate Constructor s
           = (if hashCodeOf c = Some (H candidate) then (c, s) else Constructor candidate s)"
proof (intro conjI impI; (elim conjE)?)
  assume k: "k < length (arrayItems raw)" and "isArray raw"
  with assms obtain xs where raw: "raw = VArray xs" by (cases raw) auto
  from assms have fe: "forEach_items H xs (Suc s0) = (xs, Suc s0)"
    by (simp add: raw forEach_items_settled)
  show "CrioArray_set H (fst (crio H raw s0)) k (CrioArray_get (fst (crio H raw s0)) k) s
             = (Inr (fst (crio H raw s0)), s)"
    using k
    by (simp add: raw crio_def fe CrioArray_set_def CrioArray_get_def shallowCloneArray_def
          assignIndex_def returnCorrectObject_def hasChanged_def)
next
  assume k: "name \<in> fst ` set (ownEntries (fst (crio H raw s0)))" and "isObject raw"
  with assms obtain kvs where raw: "raw = VObject kvs" by (cases raw) auto
  from assms have fe: "forEach_keys H kvs (Suc s0) = (kvs, Suc s0)"
    by (simp add: raw forEach_keys_settled)
  from k have "name \<in> fst ` set kvs" by (simp add: raw crio_def fe)
  then obtain v where v: "map_of kvs name = Some v"
    by (metis domIff dom_map_of_conv_image_fst not_Some_eq)
  then have "putEntry name v kvs = kvs" by (simp add: putEntry_def update_triv)
  then show "CrioObject_set H (fst (crio H raw s0)) name
               (CrioObject_get (fst (crio H raw s0)) name) s
             = (fst (crio H raw s0), s)"
    using v
    by (simp add: raw crio_def fe CrioObject_set_def CrioObject_get_def
          returnCorrectObject_def hasChanged_def)
next
  show "returnCorrectObject H c candidate Constructor s
           = (if hashCodeOf c = Some (H candidate) then (c, s) else Constructor candidate s)"
    by (simp add: returnCorrectObject_def hasChanged_def)
qed

theorem gate_and_set_of_get_witness:
  "shallow (VArray [VNum 1, VNum 2, VNum 3])
   \<and> shallow (VObject [(''a'', VNum 1)])
   \<and> shallow (VArray [VNum 9, VCrioArray 2 (instanceHash (VArray [VNum 2])) [VNum 2]])
   \<and> CrioArray_get (fst (crio instanceHash (VArray [VNum 1, VNum 2, VNum 3]) 0)) 1 = VNum 2
   \<and> CrioArray_set instanceHash (fst (crio instanceHash (VArray [VNum 1, VNum 2, VNum 3]) 0))
         1 (VNum 2) 1
       = (Inr (fst (crio instanceHash (VArray [VNum 1, VNum 2, VNum 3]) 0)), 1)
   \<and> CrioObject_get (fst (crio instanceHash (VObject [(''a'', VNum 1)]) 0)) ''a'' = VNum 1
   \<and> CrioObject_set instanceHash (fst (crio instanceHash (VObject [(''a'', VNum 1)]) 0))
         ''a'' (VNum 1) 1
       = (fst (crio instanceHash (VObject [(''a'', VNum 1)]) 0), 1)
   \<and> CrioArray_get
         (fst (crio instanceHash
            (VArray [VNum 9, VCrioArray 2 (instanceHash (VArray [VNum 2])) [VNum 2]]) 3)) 1
       = VCrioArray 2 (instanceHash (VArray [VNum 2])) [VNum 2]
   \<and> CrioArray_set instanceHash
         (fst (crio instanceHash
            (VArray [VNum 9, VCrioArray 2 (instanceHash (VArray [VNum 2])) [VNum 2]]) 3))
         1 (VCrioArray 2 (instanceHash (VArray [VNum 2])) [VNum 2]) 4
       = (Inr (fst (crio instanceHash
            (VArray [VNum 9, VCrioArray 2 (instanceHash (VArray [VNum 2])) [VNum 2]]) 3)), 4)"
  using gate_and_set_of_get [where raw = "VArray [VNum 1, VNum 2, VNum 3]"
          and k = 1 and ?s0.0 = 0 and s = 1 and H = instanceHash]
        gate_and_set_of_get [where raw = "VObject [(''a'', VNum 1)]"
          and name = "''a''" and ?s0.0 = 0 and s = 1 and H = instanceHash]
        gate_and_set_of_get [where raw =
            "VArray [VNum 9, VCrioArray 2 (instanceHash (VArray [VNum 2])) [VNum 2]]"
          and k = 1 and ?s0.0 = 3 and s = 4 and H = instanceHash]
  by (simp add: crio_def NATIVE_KEYS_def CrioArray_get_def CrioObject_get_def)

subsection \<open>The merge chosen by \<^verbatim>\<open>mergeIn\<close>\<close>

text \<open>
  C3. The merge applied at the final key is the one of the class of the container that
  holds the addressed slot, not of the slot's own value. With an object in a slot of an
  array, \<^verbatim>\<open>wrap([{a: 1}]).mergeIn([0], {b: 2})\<close> applies the array merge to the plain object
  \<^verbatim>\<open>{a: 1}\<close>, which has no \<^verbatim>\<open>map\<close>, and the call ends in a \<^verbatim>\<open>TypeError\<close>. With an array in a
  slot of an object, \<^verbatim>\<open>wrap({a: [1, 2]}).mergeIn(['a'], [9])\<close> applies the object merge to the
  array and the slot becomes a keyed collection with the keys \<^verbatim>\<open>0\<close> and \<^verbatim>\<open>1\<close>.
\<close>

theorem mergeIn_object_in_array_throws:
  "fst (crio structuralHash (VArray [VObject [(''a'', VNum 1)]]) 0)
     = VCrioArray 0 (structuralHash (VArray [VObject [(''a'', VNum 1)]]))
         [VCrioObject 1 (structuralHash (VObject [(''a'', VNum 1)])) [(''a'', VNum 1)]]
   \<and> mergeIn structuralHash
         (VCrioArray 0 (structuralHash (VArray [VObject [(''a'', VNum 1)]]))
            [VCrioObject 1 (structuralHash (VObject [(''a'', VNum 1)])) [(''a'', VNum 1)]])
         (VArray [VNum 0]) [VObject [(''b'', VNum 2)]] 2
       = (Inl TypeError, 2)
   \<and> fst (mergeIn structuralHash
         (fst (crio structuralHash (VObject [(''a'', VArray [VNum 1, VNum 2])]) 0))
         (VArray [VStr ''a'']) [VArray [VNum 9]] 2)
       = Inr (VCrioObject 3
               (structuralHash (VObject [(''a'',
                  VCrioObject 2 (structuralHash (VArray [VNum 9, VNum 2]))
                    [(''0'', VNum 9), (''1'', VNum 2)])]))
               [(''a'', VCrioObject 2 (structuralHash (VArray [VNum 9, VNum 2]))
                    [(''0'', VNum 9), (''1'', VNum 2)])])"
  by (simp add: crio_def NATIVE_KEYS_def mergeIn_def assignOnDeepMatch_def getProperty_def
        setProperty_def show_int_def show_nat.simps digit_def indexOfName_def itemAt_def
        lookup_def CrioArray_merge_def CrioObject_merge_def indexedEntries_def putEntry_def
        returnCorrectObject_def hasChanged_def structuralHash_eq_iff upt_rec)

subsection \<open>The deep path round trip\<close>










lemma itemAt_index: "indexOfName name (length xs) = Some i \<Longrightarrow> itemAt xs name = xs ! i"
  by (simp add: itemAt_def)



























subsection \<open>Collections never change\<close>

text \<open>No command changes a frozen object.\<close>

lemma change_frozen:
  "a < length \<sigma> \<Longrightarrow> isFrozen (\<sigma> ! a) \<Longrightarrow>
   a < length (attempt (change ref f \<sigma>) \<sigma>) \<and> attempt (change ref f \<sigma>) \<sigma> ! a = \<sigma> ! a"
  by (auto simp: change_def attempt_def nth_list_update split: sum.splits)

lemma execute_frozen:
  "a < length \<sigma> \<Longrightarrow> isFrozen (\<sigma> ! a) \<Longrightarrow>
   a < length (execute c \<sigma>) \<and> execute c \<sigma> ! a = \<sigma> ! a"
  by (cases c)
     (auto simp: allocate_def assign_def assignKey_def deleteKey_def setNonEnumerable_def
        change_frozen OBJECT_FREEZE_def nth_append nth_list_update)

lemma run_frozen:
  "a < length \<sigma> \<Longrightarrow> isFrozen (\<sigma> ! a) \<Longrightarrow>
   a < length (run cmds \<sigma>) \<and> run cmds \<sigma> ! a = \<sigma> ! a"
  unfolding run_def
proof (induction cmds arbitrary: \<sigma>)
  case Nil
  then show ?case by simp
next
  case (Cons c cmds)
  from execute_frozen [OF Cons.prems, of c]
  have 1: "a < length (execute c \<sigma>)" and 2: "execute c \<sigma> ! a = \<sigma> ! a" by simp_all
  from Cons.prems(2) 2 have "isFrozen (execute c \<sigma> ! a)" by simp
  from Cons.IH [OF 1 this] 2 show ?case by simp
qed

lemma own_same: "own ob = p \<Longrightarrow> ob\<lparr>own := p\<rparr> = ob"
  by (cases ob) simp

lemma store_forEach_items_result:
  "this < length \<sigma> \<Longrightarrow> \<not> isFrozen (\<sigma> ! this) \<Longrightarrow> own (\<sigma> ! this) = Indexed ys \<Longrightarrow>
   i = length ys \<Longrightarrow>
   store_forEach_items H this xs i \<sigma> s =
     Inr (\<sigma>[this := (\<sigma> ! this)\<lparr>own := Indexed (ys @ fst (forEach_items H xs s))\<rparr>],
          snd (forEach_items H xs s))"
proof (induction xs arbitrary: i ys \<sigma> s)
  case Nil
  then show ?case by (simp add: own_same)
next
  case (Cons x xs)
  obtain y s1 where y: "getRealValue H x s = (y, s1)" by force
  obtain zs s2 where zs: "forEach_items H xs s1 = (zs, s2)" by force
  define \<sigma>' where "\<sigma>' = \<sigma>[this := (\<sigma> ! this)\<lparr>own := Indexed (ys @ [y])\<rparr>]"
  have a: "assign this i y \<sigma> = Inr \<sigma>'"
    using Cons.prems by (simp add: assign_def change_def withOwn_def assignIndex_def \<sigma>'_def)
  have p: "this < length \<sigma>'" "\<not> isFrozen (\<sigma>' ! this)" "own (\<sigma>' ! this) = Indexed (ys @ [y])"
    "Suc i = length (ys @ [y])"
    using Cons.prems by (simp_all add: \<sigma>'_def)
  from Cons.IH [OF p, of s1] show ?case
    using y zs a Cons.prems(1) by (simp add: \<sigma>'_def)
qed

lemma store_forEach_keys_result:
  "this < length \<sigma> \<Longrightarrow> \<not> isFrozen (\<sigma> ! this) \<Longrightarrow> own (\<sigma> ! this) = Keyed ys \<Longrightarrow>
   \<exists>zs s'. store_forEach_keys H this kvs \<sigma> s =
      Inr (\<sigma>[this := (\<sigma> ! this)\<lparr>own := Keyed zs\<rparr>], s')"
proof (induction kvs arbitrary: ys \<sigma> s)
  case Nil
  then have "\<sigma> = \<sigma>[this := (\<sigma> ! this)\<lparr>own := Keyed ys\<rparr>]" by (simp add: own_same)
  then show ?case by auto
next
  case (Cons e kvs)
  obtain k x where e: "e = (k, x)" by (cases e)
  show ?case
  proof (cases "k \<in> set NATIVE_KEYS")
    case True
    from Cons.IH [OF Cons.prems, of s] show ?thesis using True by (simp add: e)
  next
    case False
    obtain y s1 where y: "getRealValue H x s = (y, s1)" by force
    define \<sigma>' where "\<sigma>' = \<sigma>[this := (\<sigma> ! this)\<lparr>own := Keyed (putEntry k y ys)\<rparr>]"
    have a: "assignKey this k y \<sigma> = Inr \<sigma>'"
      using Cons.prems by (simp add: assignKey_def change_def withOwn_def \<sigma>'_def)
    have p: "this < length \<sigma>'" "\<not> isFrozen (\<sigma>' ! this)"
      "own (\<sigma>' ! this) = Keyed (putEntry k y ys)"
      using Cons.prems by (simp_all add: \<sigma>'_def)
    from Cons.IH [OF p, of s1] obtain zs s' where
      "store_forEach_keys H this kvs \<sigma>' s1 = Inr (\<sigma>'[this := (\<sigma>' ! this)\<lparr>own := Keyed zs\<rparr>], s')"
      by blast
    then show ?thesis
      using False y a Cons.prems(1) by (auto simp: e \<sigma>'_def)
  qed
qed

lemma store_CrioArray_result:
  "store_CrioArray H xs \<sigma> s =
     Inr (length \<sigma>,
          \<sigma> @ [\<lparr>own = Indexed (fst (forEach_items H xs (Suc s))),
                 hiddenHash = Some (H (VArray xs)), isFrozen = True\<rparr>],
          snd (forEach_items H xs (Suc s)))"
proof -
  define \<sigma>1 where "\<sigma>1 = \<sigma> @ [\<lparr>own = Indexed [], hiddenHash = None, isFrozen = False\<rparr>]"
  have p: "length \<sigma> < length \<sigma>1" "\<not> isFrozen (\<sigma>1 ! length \<sigma>)"
    "own (\<sigma>1 ! length \<sigma>) = Indexed []" "0 = length ([] :: val list)"
    by (simp_all add: \<sigma>1_def)
  from store_forEach_items_result [OF p, of H xs "Suc s"] show ?thesis
    by (simp add: store_CrioArray_def allocate_def \<sigma>1_def [symmetric] finish_def
          setNonEnumerable_def change_def OBJECT_FREEZE_def)
       (simp add: \<sigma>1_def)
qed

lemma store_CrioObject_result:
  "\<exists>zs s'. store_CrioObject H kvs \<sigma> s =
     Inr (length \<sigma>,
          \<sigma> @ [\<lparr>own = Keyed zs, hiddenHash = Some (H (VObject kvs)), isFrozen = True\<rparr>], s')"
proof -
  define \<sigma>1 where "\<sigma>1 = \<sigma> @ [\<lparr>own = Keyed [], hiddenHash = None, isFrozen = False\<rparr>]"
  have p: "length \<sigma> < length \<sigma>1" "\<not> isFrozen (\<sigma>1 ! length \<sigma>)"
    "own (\<sigma>1 ! length \<sigma>) = Keyed []"
    by (simp_all add: \<sigma>1_def)
  from store_forEach_keys_result [OF p, of H kvs "Suc s"] obtain zs s' where
    "store_forEach_keys H (length \<sigma>) kvs \<sigma>1 (Suc s)
       = Inr (\<sigma>1[length \<sigma> := (\<sigma>1 ! length \<sigma>)\<lparr>own := Keyed zs\<rparr>], s')"
    by blast
  then have "store_CrioObject H kvs \<sigma> s =
     Inr (length \<sigma>,
          \<sigma> @ [\<lparr>own = Keyed zs, hiddenHash = Some (H (VObject kvs)), isFrozen = True\<rparr>], s')"
    by (simp add: store_CrioObject_def allocate_def \<sigma>1_def [symmetric] finish_def
          setNonEnumerable_def change_def OBJECT_FREEZE_def)
       (simp add: \<sigma>1_def)
  then show ?thesis by blast
qed

lemma store_CrioArray_set_result:
  assumes "this < length \<sigma>" "key \<le> length (indexedOf (own (\<sigma> ! this)))"
  shows "store_CrioArray_set H this key v \<sigma> s =
    (let c = assignIndex (indexedOf (own (\<sigma> ! this))) key v;
         \<sigma>2 = \<sigma> @ [\<lparr>own = Indexed c, hiddenHash = None, isFrozen = False\<rparr>]
     in if hiddenHash (\<sigma> ! this) \<noteq> Some (H (VArray c))
        then Inr (Suc (length \<sigma>),
                  \<sigma>2 @ [\<lparr>own = Indexed (fst (forEach_items H c (Suc s))),
                          hiddenHash = Some (H (VArray c)), isFrozen = True\<rparr>],
                  snd (forEach_items H c (Suc s)))
        else Inr (this, \<sigma>2, s))"
  using assms
  by (simp add: store_CrioArray_set_def allocate_def assign_def change_def withOwn_def
        store_CrioArray_result nth_append Let_def)

lemma store_CrioObject_set_result:
  assumes "this < length \<sigma>"
  shows "\<exists>r \<sigma>' s'. store_CrioObject_set H this name v \<sigma> s = Inr (r, \<sigma>', s')
           \<and> (\<forall>a<length \<sigma>. \<sigma>' ! a = \<sigma> ! a) \<and> r < length \<sigma>'
           \<and> (r \<noteq> this \<longrightarrow> isFrozen (\<sigma>' ! r))"
proof -
  define c where "c = putEntry name v (keyedOf (own (\<sigma> ! this)))"
  define \<sigma>2 where "\<sigma>2 = \<sigma> @ [\<lparr>own = Keyed c, hiddenHash = None, isFrozen = False\<rparr>]"
  have a: "assignKey (length \<sigma>)  name v
             (\<sigma> @ [\<lparr>own = Keyed (keyedOf (own (\<sigma> ! this))), hiddenHash = None,
                     isFrozen = False\<rparr>]) = Inr \<sigma>2"
    by (simp add: assignKey_def change_def withOwn_def \<sigma>2_def c_def)
  have \<sigma>2: "\<sigma>2 ! this = \<sigma> ! this" "\<sigma>2 ! length \<sigma> = \<lparr>own = Keyed c, hiddenHash = None, isFrozen = False\<rparr>"
    "length \<sigma>2 = Suc (length \<sigma>)"
    using assms by (simp_all add: \<sigma>2_def nth_append)
  show ?thesis
  proof (cases "hiddenHash (\<sigma> ! this) \<noteq> Some (H (VObject c))")
    case True
    from store_CrioObject_result [of H c \<sigma>2 s] obtain zs s' where
      r: "store_CrioObject H c \<sigma>2 s =
            Inr (length \<sigma>2,
                 \<sigma>2 @ [\<lparr>own = Keyed zs, hiddenHash = Some (H (VObject c)), isFrozen = True\<rparr>], s')"
      by blast
    have "store_CrioObject_set H this name v \<sigma> s =
            Inr (length \<sigma>2,
                 \<sigma>2 @ [\<lparr>own = Keyed zs, hiddenHash = Some (H (VObject c)), isFrozen = True\<rparr>], s')"
      using True a \<sigma>2 r by (simp add: store_CrioObject_set_def allocate_def)
    then show ?thesis
      by (simp add: \<sigma>2_def nth_append)
  next
    case False
    have "store_CrioObject_set H this name v \<sigma> s = Inr (this, \<sigma>2, s)"
      using False a \<sigma>2 by (simp add: store_CrioObject_set_def allocate_def)
    then show ?thesis
      using assms by (simp add: \<sigma>2_def nth_append)
  qed
qed

text \<open>
  C8. No operation changes the collection it is invoked on. A frozen object of the store
  reads the same after any sequence of commands. Both constructors return a newly created
  object that is frozen, and change no object that was in the store; the elements of the
  indexed collection are those of the collection the constructor returns as a value. For
  \<open>key \<le> length\<close>, \<^verbatim>\<open>set\<close> of an indexed collection returns an object of the store, itself or
  a frozen one, whose elements are those of the result of \<^verbatim>\<open>set\<close> as a value, and every
  object that was in the store, the collection it was invoked on among them, is as it was;
  for \<open>key > length\<close> it throws before it does anything. \<^verbatim>\<open>set\<close> of a keyed collection
  returns itself or a frozen object and leaves every object that was in the store as it was.
\<close>

theorem store_objects_never_change:
  assumes "this < length \<sigma>"
  shows "(isFrozen (\<sigma> ! this) \<longrightarrow> run cmds \<sigma> ! this = \<sigma> ! this)
    \<and> (\<exists>r \<sigma>' s'. store_CrioArray H xs \<sigma> s = Inr (r, \<sigma>', s') \<and> isFrozen (\<sigma>' ! r)
          \<and> indexedOf (own (\<sigma>' ! r)) = arrayItems (fst (CrioArray_constructor H (VArray xs) s))
          \<and> (\<forall>a<length \<sigma>. \<sigma>' ! a = \<sigma> ! a))
    \<and> (\<exists>r \<sigma>' s'. store_CrioObject H kvs \<sigma> s = Inr (r, \<sigma>', s') \<and> isFrozen (\<sigma>' ! r)
          \<and> (\<forall>a<length \<sigma>. \<sigma>' ! a = \<sigma> ! a))
    \<and> (length (indexedOf (own (\<sigma> ! this))) < key \<longrightarrow>
          store_CrioArray_set H this key v \<sigma> s = Inl RangeError)
    \<and> (key \<le> length (indexedOf (own (\<sigma> ! this))) \<longrightarrow>
          (\<exists>r \<sigma>' s'. store_CrioArray_set H this key v \<sigma> s = Inr (r, \<sigma>', s')
             \<and> (\<forall>a<length \<sigma>. \<sigma>' ! a = \<sigma> ! a) \<and> r < length \<sigma>'
             \<and> (r \<noteq> this \<longrightarrow> isFrozen (\<sigma>' ! r))
             \<and> (\<forall>i h. hiddenHash (\<sigma> ! this) = Some h \<longrightarrow>
                  (\<exists>u. fst (CrioArray_set H (VCrioArray i h (indexedOf (own (\<sigma> ! this)))) key v s)
                         = Inr u
                       \<and> arrayItems u = indexedOf (own (\<sigma>' ! r))))))
    \<and> (\<exists>r \<sigma>' s'. store_CrioObject_set H this name v \<sigma> s = Inr (r, \<sigma>', s')
          \<and> (\<forall>a<length \<sigma>. \<sigma>' ! a = \<sigma> ! a) \<and> r < length \<sigma>'
          \<and> (r \<noteq> this \<longrightarrow> isFrozen (\<sigma>' ! r)))"
proof (intro conjI)
  show "isFrozen (\<sigma> ! this) \<longrightarrow> run cmds \<sigma> ! this = \<sigma> ! this"
    using run_frozen [OF assms] by simp
next
  show "\<exists>r \<sigma>' s'. store_CrioArray H xs \<sigma> s = Inr (r, \<sigma>', s') \<and> isFrozen (\<sigma>' ! r)
          \<and> indexedOf (own (\<sigma>' ! r)) = arrayItems (fst (CrioArray_constructor H (VArray xs) s))
          \<and> (\<forall>a<length \<sigma>. \<sigma>' ! a = \<sigma> ! a)"
    by (simp add: store_CrioArray_result nth_append split_beta)
next
  from store_CrioObject_result [of H kvs \<sigma> s]
  show "\<exists>r \<sigma>' s'. store_CrioObject H kvs \<sigma> s = Inr (r, \<sigma>', s') \<and> isFrozen (\<sigma>' ! r)
          \<and> (\<forall>a<length \<sigma>. \<sigma>' ! a = \<sigma> ! a)"
    by (auto simp: nth_append)
next
  show "length (indexedOf (own (\<sigma> ! this))) < key \<longrightarrow>
          store_CrioArray_set H this key v \<sigma> s = Inl RangeError"
    by (simp add: store_CrioArray_set_def)
next
  show "key \<le> length (indexedOf (own (\<sigma> ! this))) \<longrightarrow>
          (\<exists>r \<sigma>' s'. store_CrioArray_set H this key v \<sigma> s = Inr (r, \<sigma>', s')
             \<and> (\<forall>a<length \<sigma>. \<sigma>' ! a = \<sigma> ! a) \<and> r < length \<sigma>'
             \<and> (r \<noteq> this \<longrightarrow> isFrozen (\<sigma>' ! r))
             \<and> (\<forall>i h. hiddenHash (\<sigma> ! this) = Some h \<longrightarrow>
                  (\<exists>u. fst (CrioArray_set H (VCrioArray i h (indexedOf (own (\<sigma> ! this)))) key v s)
                         = Inr u
                       \<and> arrayItems u = indexedOf (own (\<sigma>' ! r)))))"
  proof
    assume k: "key \<le> length (indexedOf (own (\<sigma> ! this)))"
    show "\<exists>r \<sigma>' s'. store_CrioArray_set H this key v \<sigma> s = Inr (r, \<sigma>', s')
             \<and> (\<forall>a<length \<sigma>. \<sigma>' ! a = \<sigma> ! a) \<and> r < length \<sigma>'
             \<and> (r \<noteq> this \<longrightarrow> isFrozen (\<sigma>' ! r))
             \<and> (\<forall>i h. hiddenHash (\<sigma> ! this) = Some h \<longrightarrow>
                  (\<exists>u. fst (CrioArray_set H (VCrioArray i h (indexedOf (own (\<sigma> ! this)))) key v s)
                         = Inr u
                       \<and> arrayItems u = indexedOf (own (\<sigma>' ! r))))"
      using assms k
      by (simp add: store_CrioArray_set_result [OF assms k] Let_def nth_append CrioArray_set_def
            returnCorrectObject_def hasChanged_def shallowCloneArray_def split_beta)
  qed
next
  from store_CrioObject_set_result [OF assms]
  show "\<exists>r \<sigma>' s'. store_CrioObject_set H this name v \<sigma> s = Inr (r, \<sigma>', s')
          \<and> (\<forall>a<length \<sigma>. \<sigma>' ! a = \<sigma> ! a) \<and> r < length \<sigma>'
          \<and> (r \<noteq> this \<longrightarrow> isFrozen (\<sigma>' ! r))"
    by blast
qed

text \<open>
  For \<^verbatim>\<open>root = crio([1, 2, 3])\<close>, \<^verbatim>\<open>root.set(1, 9)\<close> returns a new frozen collection with the
  elements \<^verbatim>\<open>[1, 9, 3]\<close> and \<^verbatim>\<open>root\<close> is untouched; no write to \<^verbatim>\<open>root\<close> changes it, and
  \<^verbatim>\<open>root.set(7, 9)\<close> throws.
\<close>

theorem store_objects_never_change_witness:
  "(let root = \<lparr>own = Indexed [VNum 1, VNum 2, VNum 3],
                hiddenHash = Some (instanceHash (VArray [VNum 1, VNum 2, VNum 3])),
                isFrozen = True\<rparr>
    in store_CrioArray instanceHash [VNum 1, VNum 2, VNum 3] [] 0 = Inr (0, [root], 1)
       \<and> (0 :: nat) < length [root] \<and> isFrozen ([root] ! 0)
       \<and> (1 :: nat) \<le> length (indexedOf (own ([root] ! 0)))
       \<and> (\<exists>\<sigma>' s'. store_CrioArray_set instanceHash 0 1 (VNum 9) [root] 1 = Inr (2, \<sigma>', s')
             \<and> indexedOf (own (\<sigma>' ! 2)) = [VNum 1, VNum 9, VNum 3]
             \<and> isFrozen (\<sigma>' ! 2)
             \<and> \<sigma>' ! 0 = root)
       \<and> run [Assign 0 1 (VNum 9), AssignKey 0 ''1'' (VNum 9), Delete 0 ''1'',
               DefineHash 0 0, Freeze 0, Allocate root] [root] ! 0 = root
       \<and> length (indexedOf (own ([root] ! 0))) < 7
       \<and> store_CrioArray_set instanceHash 0 7 (VNum 9) [root] 1 = Inl RangeError
       \<and> (\<exists>r \<sigma>' s'. store_CrioObject_set instanceHash 0 ''a'' (VNum 9) [root] 1 = Inr (r, \<sigma>', s')
             \<and> \<sigma>' ! 0 = root))"
  using store_objects_never_change
          [where this = 0 and key = 1 and v = "VNum 9" and s = 1 and H = instanceHash
             and cmds = "[Assign 0 1 (VNum 9), AssignKey 0 ''1'' (VNum 9), Delete 0 ''1'',
                          DefineHash 0 0, Freeze 0, Allocate
                            \<lparr>own = Indexed [VNum 1, VNum 2, VNum 3],
                             hiddenHash = Some (instanceHash (VArray [VNum 1, VNum 2, VNum 3])),
                             isFrozen = True\<rparr>]"
             and xs = "[VNum 1, VNum 2, VNum 3]" and kvs = "[]" and name = "''a''"
             and \<sigma> = "[\<lparr>own = Indexed [VNum 1, VNum 2, VNum 3],
                          hiddenHash = Some (instanceHash (VArray [VNum 1, VNum 2, VNum 3])),
                          isFrozen = True\<rparr>]"]
        store_objects_never_change
          [where this = 0 and key = 7 and v = "VNum 9" and s = 1 and H = instanceHash
             and cmds = "[]" and xs = "[]" and kvs = "[]" and name = "''a''"
             and \<sigma> = "[\<lparr>own = Indexed [VNum 1, VNum 2, VNum 3],
                          hiddenHash = Some (instanceHash (VArray [VNum 1, VNum 2, VNum 3])),
                          isFrozen = True\<rparr>]"]
  by (simp add: Let_def store_CrioArray_result store_CrioArray_set_result assignIndex_def
        instanceHash_def list_encode_eq int_encode_eq)
     blast

end
